theory Spec2Isabelle
  imports Complex_Main
begin

section \<open>Values\<close>

text \<open>
  The module \<^verbatim>\<open>pyccl/power.py\<close> is a layer between the caller and the compiled
  cosmology engine. Its functions normalise the shape of an argument, call a routine of
  the engine or a method of the \<^verbatim>\<open>Cosmology\<close> object, test the returned status and give
  the result the shape of the argument.

  A Python float is a real number or one of the three special values. Rounding is not
  modelled: no statement below depends on the digits of a result.
\<close>

datatype pyfloat = Fl real | PInf | NInf | NaN

text \<open>
  The varying argument of an operation is a number (zero dimensions) or a
  one-dimensional array, as the docstrings say (\<^verbatim>\<open>int, float or (n,) array_like\<close>).
\<close>

datatype nd = Scalar pyfloat | Array "pyfloat list"

text \<open>The value of a tabulated power spectrum: a number, a row or a grid.\<close>

datatype pkval = PkScalar pyfloat | PkArray "pyfloat list" | PkGrid "pyfloat list list"

text \<open>The engine's handle of a tabulated power spectrum.\<close>

type_synonym psp = nat

datatype error =
    CCLError int string
  | KeyError string
  | IndexError
  | ZeroDivisionError

subsection \<open>The numpy and Python primitives the module uses\<close>

definition atleast_1d :: "nd \<Rightarrow> pyfloat list" where
  "atleast_1d x = (case x of Scalar v \<Rightarrow> [v] | Array vs \<Rightarrow> vs)"

definition ndim :: "nd \<Rightarrow> nat" where
  "ndim x = (case x of Scalar v \<Rightarrow> 0 | Array vs \<Rightarrow> 1)"

definition np_isnan :: "pyfloat \<Rightarrow> bool" where
  "np_isnan x = (case x of NaN \<Rightarrow> True | _ \<Rightarrow> False)"

text \<open>
  \<^verbatim>\<open>np.log10\<close> of one element: numpy warns and gives \<^verbatim>\<open>-inf\<close> at zero and
  \<^verbatim>\<open>nan\<close> below it; it does not raise.
\<close>

definition np_log10 :: "pyfloat \<Rightarrow> pyfloat" where
  "np_log10 x =
     (case x of
        Fl r \<Rightarrow> (if 0 < r then Fl (log 10 r) else if r = 0 then NInf else NaN)
      | PInf \<Rightarrow> PInf
      | NInf \<Rightarrow> NaN
      | NaN \<Rightarrow> NaN)"

text \<open>\<^verbatim>\<open>x[0]\<close> on a one-dimensional array: IndexError when the array is empty.\<close>

definition getitem0 :: "pyfloat list \<Rightarrow> error + pyfloat" where
  "getitem0 xs = (case xs of [] \<Rightarrow> Inl IndexError | x # _ \<Rightarrow> Inr x)"

text \<open>
  Python's \<^verbatim>\<open>/\<close> on two floats: a zero divisor raises ZeroDivisionError whatever the
  dividend is.
\<close>

definition py_truediv :: "pyfloat \<Rightarrow> pyfloat \<Rightarrow> error + pyfloat" where
  "py_truediv x y =
     (case y of
        Fl d \<Rightarrow>
          (if d = 0 then Inl ZeroDivisionError
           else (case x of
                   Fl n \<Rightarrow> Inr (Fl (n / d))
                 | PInf \<Rightarrow> Inr (if 0 < d then PInf else NInf)
                 | NInf \<Rightarrow> Inr (if 0 < d then NInf else PInf)
                 | NaN \<Rightarrow> Inr NaN))
      | NaN \<Rightarrow> Inr NaN
      | _ \<Rightarrow> (case x of Fl n \<Rightarrow> Inr (Fl 0) | _ \<Rightarrow> Inr NaN))"

section \<open>The Cosmology object\<close>

text \<open>
  The class \<^verbatim>\<open>Cosmology\<close> is not part of \<^verbatim>\<open>power.py\<close>. The record holds what the
  module reads and writes through it: the engine-side struct \<^verbatim>\<open>cosmo.cosmo\<close>, the
  parameters \<^verbatim>\<open>cosmo["h"]\<close> and \<^verbatim>\<open>cosmo["sigma8"]\<close>, and the two registries of
  tabulated power spectra keyed by name.
\<close>

record ccl_cosmology =
  computed_sigma :: bool
  status_message :: string

record Cosmology =
  c_cosmo :: ccl_cosmology
  param_h :: pyfloat
  param_sigma8 :: pyfloat
  pk_linear :: "(string \<times> psp) list"
  pk_nonlin :: "(string \<times> psp) list"

text \<open>
  Modelled from the spec: the constant \<^verbatim>\<open>DEFAULT_POWER_SPECTRUM\<close> is imported from the
  package and absent from the source file; it is the identifier of the matter-matter
  auto-spectrum, written \<^verbatim>\<open>'delta_matter:delta_matter'\<close> in the docstrings.
\<close>

definition DEFAULT_POWER_SPECTRUM :: string where
  "DEFAULT_POWER_SPECTRUM = ''delta_matter:delta_matter''"

text \<open>
  Modelled from the spec: \<^verbatim>\<open>Cosmology.compute_sigma\<close> is absent from the source file.
  The spec calls it an idempotent step that ensures the lazily-built variance table of
  the context is computed, safe to call repeatedly, returning nothing.
\<close>

definition compute_sigma :: "Cosmology \<Rightarrow> Cosmology" where
  "compute_sigma cosmo = cosmo\<lparr>c_cosmo := (c_cosmo cosmo)\<lparr>computed_sigma := True\<rparr>\<rparr>"

text \<open>
  Modelled from the spec: \<^verbatim>\<open>Cosmology.get_linear_power\<close>,
  \<^verbatim>\<open>Cosmology.get_nonlin_power\<close> and \<^verbatim>\<open>Cosmology.parse_pk2d\<close> are absent from
  the source file. The spec has the spectra stored in the context under a string key,
  each linear or non-linear, looked up by the module and never changed by it;
  \<^verbatim>\<open>parse_pk2d(id, is_linear)\<close> gives the engine handle of the spectrum with that tag.
\<close>

definition lookup_pk :: "(string \<times> psp) list \<Rightarrow> string \<Rightarrow> error + psp" where
  "lookup_pk reg name = (case map_of reg name of None \<Rightarrow> Inl (KeyError name) | Some p \<Rightarrow> Inr p)"

definition get_linear_power :: "Cosmology \<Rightarrow> string \<Rightarrow> error + psp" where
  "get_linear_power cosmo name = lookup_pk (pk_linear cosmo) name"

definition get_nonlin_power :: "Cosmology \<Rightarrow> string \<Rightarrow> error + psp" where
  "get_nonlin_power cosmo name = lookup_pk (pk_nonlin cosmo) name"

definition parse_pk2d :: "Cosmology \<Rightarrow> string \<Rightarrow> bool \<Rightarrow> error + psp" where
  "parse_pk2d cosmo p_of_k_a is_linear =
     (if is_linear then get_linear_power cosmo p_of_k_a else get_nonlin_power cosmo p_of_k_a)"

text \<open>
  Modelled from the spec: \<^verbatim>\<open>check\<close> is imported from the package and absent from the
  source file. A zero status is success; any other status is raised as an error that
  carries the diagnostic state of the context.
\<close>

definition check :: "int \<Rightarrow> Cosmology \<Rightarrow> error + unit" where
  "check status cosmo =
     (if status = 0 then Inr () else Inl (CCLError status (status_message (c_cosmo cosmo))))"

text \<open>
  Modelled from the spec: \<^verbatim>\<open>Cosmology._fill_params\<close> is absent from the source file;
  it is the internal write method that fills a named parameter in place. The module calls
  it with the keyword \<^verbatim>\<open>sigma8\<close> only.
\<close>

definition fill_params_sigma8 :: "Cosmology \<Rightarrow> pyfloat \<Rightarrow> Cosmology" where
  "fill_params_sigma8 cosmo v = cosmo\<lparr>param_sigma8 := v\<rparr>"

section \<open>The engine\<close>

text \<open>
  The vectorised routines of the compiled engine and the evaluator of a tabulated
  spectrum are parameters: each routine takes the engine-side struct, the array
  arguments, the length of the output and the incoming status, and returns the output
  array with the new status. Nothing is assumed of what they compute.
\<close>

record lib =
  sigM_vec :: "ccl_cosmology \<Rightarrow> nd \<Rightarrow> pyfloat list \<Rightarrow> nat \<Rightarrow> int \<Rightarrow> pyfloat list \<times> int"
  sigmaR_vec :: "ccl_cosmology \<Rightarrow> psp \<Rightarrow> nd \<Rightarrow> pyfloat list \<Rightarrow> nat \<Rightarrow> int \<Rightarrow> pyfloat list \<times> int"
  sigmaV_vec :: "ccl_cosmology \<Rightarrow> psp \<Rightarrow> nd \<Rightarrow> pyfloat list \<Rightarrow> nat \<Rightarrow> int \<Rightarrow> pyfloat list \<times> int"
  kNL_vec :: "ccl_cosmology \<Rightarrow> psp \<Rightarrow> pyfloat list \<Rightarrow> nat \<Rightarrow> int \<Rightarrow> pyfloat list \<times> int"
  Pk2D_call :: "psp \<Rightarrow> nd \<Rightarrow> nd \<Rightarrow> Cosmology \<Rightarrow> error + pkval"

text \<open>
  Every call the module makes on the context or on the engine is recorded, with its
  arguments, in the order the source makes it. An operation returns its result or the
  error it raises, the context as it leaves it, and the calls it made.
\<close>

datatype call =
    Compute_sigma
  | Get_linear_power string
  | Get_nonlin_power string
  | Pk2D_eval psp nd nd
  | Parse_pk2d string bool
  | SigM_vec ccl_cosmology nd "pyfloat list" nat int
  | SigmaR_vec ccl_cosmology psp nd "pyfloat list" nat int
  | SigmaV_vec ccl_cosmology psp nd "pyfloat list" nat int
  | KNL_vec ccl_cosmology psp "pyfloat list" nat int
  | Check int
  | Fill_params_sigma8 pyfloat

type_synonym 'a outcome = "(error + 'a) \<times> Cosmology \<times> call list"

definition result :: "'a outcome \<Rightarrow> error + 'a" where
  "result out = fst out"

definition context_after :: "'a outcome \<Rightarrow> Cosmology" where
  "context_after out = fst (snd out)"

definition calls :: "'a outcome \<Rightarrow> call list" where
  "calls out = snd (snd out)"

section \<open>The operations of power.py\<close>

text \<open>
  The decorator \<^verbatim>\<open>warn_api\<close> only maps deprecated argument names onto the current ones;
  the calls below use the current names, so a decorated function is the function.
\<close>

definition linear_power :: "lib \<Rightarrow> Cosmology \<Rightarrow> nd \<Rightarrow> nd \<Rightarrow> string \<Rightarrow> pkval outcome" where
  "linear_power L cosmo k a p_of_k_a =
     (case get_linear_power cosmo p_of_k_a of
        Inl e \<Rightarrow> (Inl e, cosmo, [Get_linear_power p_of_k_a])
      | Inr pk \<Rightarrow>
          (Pk2D_call L pk k a cosmo, cosmo, [Get_linear_power p_of_k_a, Pk2D_eval pk k a]))"

definition nonlin_power :: "lib \<Rightarrow> Cosmology \<Rightarrow> nd \<Rightarrow> nd \<Rightarrow> string \<Rightarrow> pkval outcome" where
  "nonlin_power L cosmo k a p_of_k_a =
     (case get_nonlin_power cosmo p_of_k_a of
        Inl e \<Rightarrow> (Inl e, cosmo, [Get_nonlin_power p_of_k_a])
      | Inr pk \<Rightarrow>
          (Pk2D_call L pk k a cosmo, cosmo, [Get_nonlin_power p_of_k_a, Pk2D_eval pk k a]))"

text \<open>
  Modelled from the spec: the methods \<^verbatim>\<open>cosmo.linear_power\<close>,
  \<^verbatim>\<open>cosmo.nonlin_power\<close> and \<^verbatim>\<open>cosmo.sigmaR\<close> belong to the class
  \<^verbatim>\<open>Cosmology\<close>, absent from the source file. The spec has the two wrappers delegate
  to the two operations above and \<^verbatim>\<open>sigma8\<close> compute \<^verbatim>\<open>sigmaR\<close>: each method is
  the module's function of the same name with the context as first argument.
\<close>

definition Cosmology_linear_power :: "lib \<Rightarrow> Cosmology \<Rightarrow> nd \<Rightarrow> nd \<Rightarrow> string \<Rightarrow> pkval outcome" where
  "Cosmology_linear_power L self k a p_of_k_a = linear_power L self k a p_of_k_a"

definition Cosmology_nonlin_power :: "lib \<Rightarrow> Cosmology \<Rightarrow> nd \<Rightarrow> nd \<Rightarrow> string \<Rightarrow> pkval outcome" where
  "Cosmology_nonlin_power L self k a p_of_k_a = nonlin_power L self k a p_of_k_a"

definition linear_matter_power :: "lib \<Rightarrow> Cosmology \<Rightarrow> nd \<Rightarrow> nd \<Rightarrow> pkval outcome" where
  "linear_matter_power L cosmo k a = Cosmology_linear_power L cosmo k a DEFAULT_POWER_SPECTRUM"

definition nonlin_matter_power :: "lib \<Rightarrow> Cosmology \<Rightarrow> nd \<Rightarrow> nd \<Rightarrow> pkval outcome" where
  "nonlin_matter_power L cosmo k a = Cosmology_nonlin_power L cosmo k a DEFAULT_POWER_SPECTRUM"

text \<open>
  The last three lines of \<^verbatim>\<open>sigmaM\<close>, \<^verbatim>\<open>sigmaR\<close>, \<^verbatim>\<open>sigmaV\<close> and \<^verbatim>\<open>kNL\<close>:
  \<^verbatim>\<open>if np.ndim(x) == 0: out = out[0]\<close> and \<^verbatim>\<open>return out\<close>.
\<close>

definition unwrap :: "nd \<Rightarrow> pyfloat list \<Rightarrow> error + nd" where
  "unwrap x out =
     (if ndim x = 0
      then (case getitem0 out of Inl e \<Rightarrow> Inl e | Inr v \<Rightarrow> Inr (Scalar v))
      else Inr (Array out))"

definition sigmaM :: "lib \<Rightarrow> Cosmology \<Rightarrow> nd \<Rightarrow> nd \<Rightarrow> nd outcome" where
  "sigmaM L cosmo M a =
     (let cosmo1 = compute_sigma cosmo;
          logM = map np_log10 (atleast_1d M);
          status0 = 0;
          (sigM, status) = sigM_vec L (c_cosmo cosmo1) a logM (length logM) status0;
          made = [Compute_sigma, SigM_vec (c_cosmo cosmo1) a logM (length logM) status0,
                  Check status]
      in case check status cosmo1 of
           Inl e \<Rightarrow> (Inl e, cosmo1, made)
         | Inr u \<Rightarrow> (unwrap M sigM, cosmo1, made))"

definition sigmaR :: "lib \<Rightarrow> Cosmology \<Rightarrow> nd \<Rightarrow> nd \<Rightarrow> string \<Rightarrow> nd outcome" where
  "sigmaR L cosmo R a p_of_k_a =
     (case parse_pk2d cosmo p_of_k_a True of
        Inl e \<Rightarrow> (Inl e, cosmo, [Parse_pk2d p_of_k_a True])
      | Inr psp \<Rightarrow>
          (let status0 = 0;
               R_use = atleast_1d R;
               (sR, status) = sigmaR_vec L (c_cosmo cosmo) psp a R_use (length R_use) status0;
               made = [Parse_pk2d p_of_k_a True,
                       SigmaR_vec (c_cosmo cosmo) psp a R_use (length R_use) status0,
                       Check status]
           in case check status cosmo of
                Inl e \<Rightarrow> (Inl e, cosmo, made)
              | Inr u \<Rightarrow> (unwrap R sR, cosmo, made)))"

definition sigmaV :: "lib \<Rightarrow> Cosmology \<Rightarrow> nd \<Rightarrow> nd \<Rightarrow> string \<Rightarrow> nd outcome" where
  "sigmaV L cosmo R a p_of_k_a =
     (case parse_pk2d cosmo p_of_k_a True of
        Inl e \<Rightarrow> (Inl e, cosmo, [Parse_pk2d p_of_k_a True])
      | Inr psp \<Rightarrow>
          (let status0 = 0;
               R_use = atleast_1d R;
               (sV, status) = sigmaV_vec L (c_cosmo cosmo) psp a R_use (length R_use) status0;
               made = [Parse_pk2d p_of_k_a True,
                       SigmaV_vec (c_cosmo cosmo) psp a R_use (length R_use) status0,
                       Check status]
           in case check status cosmo of
                Inl e \<Rightarrow> (Inl e, cosmo, made)
              | Inr u \<Rightarrow> (unwrap R sV, cosmo, made)))"

definition kNL :: "lib \<Rightarrow> Cosmology \<Rightarrow> nd \<Rightarrow> string \<Rightarrow> nd outcome" where
  "kNL L cosmo a p_of_k_a =
     (case parse_pk2d cosmo p_of_k_a True of
        Inl e \<Rightarrow> (Inl e, cosmo, [Parse_pk2d p_of_k_a True])
      | Inr psp \<Rightarrow>
          (let status0 = 0;
               a_use = atleast_1d a;
               (knl, status) = kNL_vec L (c_cosmo cosmo) psp a_use (length a_use) status0;
               made = [Parse_pk2d p_of_k_a True,
                       KNL_vec (c_cosmo cosmo) psp a_use (length a_use) status0,
                       Check status]
           in case check status cosmo of
                Inl e \<Rightarrow> (Inl e, cosmo, made)
              | Inr u \<Rightarrow> (unwrap a knl, cosmo, made)))"

definition Cosmology_sigmaR :: "lib \<Rightarrow> Cosmology \<Rightarrow> nd \<Rightarrow> nd \<Rightarrow> string \<Rightarrow> nd outcome" where
  "Cosmology_sigmaR L self R a p_of_k_a = sigmaR L self R a p_of_k_a"

text \<open>
  \<^verbatim>\<open>sigma8\<close> divides first, then calls the method \<^verbatim>\<open>sigmaR\<close> with the default scale
  factor 1, then tests the stored parameter and fills it only when it is not a number.
  The radius has zero dimensions, so the value that comes back is a number; the branch
  for an array is there for the type only and is shown below never to be taken.
\<close>

definition sigma8 :: "lib \<Rightarrow> Cosmology \<Rightarrow> string \<Rightarrow> nd outcome" where
  "sigma8 L cosmo p_of_k_a =
     (case py_truediv (Fl 8) (param_h cosmo) of
        Inl e \<Rightarrow> (Inl e, cosmo, [])
      | Inr R \<Rightarrow>
          (case Cosmology_sigmaR L cosmo (Scalar R) (Scalar (Fl 1)) p_of_k_a of
             (Inl e, cosmo1, made) \<Rightarrow> (Inl e, cosmo1, made)
           | (Inr (Scalar sig8), cosmo1, made) \<Rightarrow>
               (if np_isnan (param_sigma8 cosmo1)
                then (Inr (Scalar sig8), fill_params_sigma8 cosmo1 sig8,
                      made @ [Fill_params_sigma8 sig8])
                else (Inr (Scalar sig8), cosmo1, made))
           | (Inr (Array sig8), cosmo1, made) \<Rightarrow> (Inr (Array sig8), cosmo1, made)))"

section \<open>Notions the statements use\<close>

text \<open>The shape of a value: nothing for a number, the length for an array.\<close>

definition shape :: "nd \<Rightarrow> nat option" where
  "shape x = (case x of Scalar v \<Rightarrow> None | Array vs \<Rightarrow> Some (length vs))"

text \<open>The parameter writes among the calls an operation made, in order.\<close>

fun fills :: "call list \<Rightarrow> pyfloat list" where
  "fills [] = []"
| "fills (Fill_params_sigma8 v # cs) = v # fills cs"
| "fills (c # cs) = fills cs"

text \<open>A mass the logarithm is defined at: finite and positive.\<close>

definition positive_mass :: "pyfloat \<Rightarrow> bool" where
  "positive_mass x = (case x of Fl r \<Rightarrow> 0 < r | _ \<Rightarrow> False)"

subsection \<open>A stand-in engine and two contexts, for the concrete instances\<close>

text \<open>
  The stand-in engine returns its input array as output. It reports status 1 when an
  element of the input is negative or not a number, and the incoming status otherwise.
\<close>

definition rejected :: "pyfloat \<Rightarrow> bool" where
  "rejected x = (case x of Fl r \<Rightarrow> r < 0 | PInf \<Rightarrow> False | NInf \<Rightarrow> True | NaN \<Rightarrow> True)"

definition echo :: "pyfloat list \<Rightarrow> int \<Rightarrow> pyfloat list \<times> int" where
  "echo xs st = (xs, if list_ex rejected xs then 1 else st)"

definition example_lib :: lib where
  "example_lib =
     \<lparr>sigM_vec = (\<lambda>c a xs n st. echo xs st),
      sigmaR_vec = (\<lambda>c p a xs n st. echo xs st),
      sigmaV_vec = (\<lambda>c p a xs n st. echo xs st),
      kNL_vec = (\<lambda>c p xs n st. echo xs st),
      Pk2D_call = (\<lambda>p k a c. Inr (PkArray (atleast_1d k)))\<rparr>"

text \<open>
  A context whose sigma8 is undefined and whose variance table is not built yet; the
  name \<^verbatim>\<open>nl_only\<close> is registered as a non-linear spectrum only.
\<close>

definition example_cosmo :: Cosmology where
  "example_cosmo =
     \<lparr>c_cosmo = \<lparr>computed_sigma = False, status_message = ''engine log''\<rparr>,
      param_h = Fl (1 / 2),
      param_sigma8 = NaN,
      pk_linear = [(''delta_matter:delta_matter'', 1)],
      pk_nonlin = [(''delta_matter:delta_matter'', 2), (''nl_only'', 3)]\<rparr>"

text \<open>The same context with sigma8 defined.\<close>

definition example_cosmo_s8 :: Cosmology where
  "example_cosmo_s8 = example_cosmo\<lparr>param_sigma8 := Fl (4 / 5)\<rparr>"

text \<open>
  A stricter stand-in engine: its \<^verbatim>\<open>sigM_vec\<close> reports status 2 on a context whose
  variance table is not computed, and is the one above otherwise.
\<close>

definition table_lib :: lib where
  "table_lib =
     example_lib\<lparr>sigM_vec := (\<lambda>c a xs n st. if computed_sigma c then echo xs st else (xs, 2))\<rparr>"

section \<open>Facts about the operations\<close>

lemma outcome_simps [simp]:
  "result (r, c, m) = r" "context_after (r, c, m) = c" "calls (r, c, m) = m"
  by (simp_all add: result_def context_after_def calls_def)

lemma unwrap_Scalar: "unwrap (Scalar x) out = (case out of [] \<Rightarrow> Inl IndexError | v # vs \<Rightarrow> Inr (Scalar v))"
  by (simp add: unwrap_def ndim_def getitem0_def split: list.splits)

lemma unwrap_Array: "unwrap (Array xs) out = Inr (Array out)"
  by (simp add: unwrap_def ndim_def)

lemma unwrap_shape:
  "length out = length (atleast_1d x) \<Longrightarrow> \<exists>v. unwrap x out = Inr v \<and> shape v = shape x"
  by (cases x; cases out) (simp_all add: unwrap_Scalar unwrap_Array atleast_1d_def shape_def)

lemma unwrap_value:
  "length out = length (atleast_1d x) \<Longrightarrow>
   unwrap x out = Inr (if ndim x = 0 then Scalar (out ! 0) else Array out)"
  by (cases x; cases out) (simp_all add: unwrap_Scalar unwrap_Array atleast_1d_def ndim_def)

lemma unwrap_not_Scalar: "unwrap x out = Inr (Scalar v) \<Longrightarrow> ndim x = 0"
  by (cases x) (simp_all add: unwrap_Array ndim_def)

lemma compute_sigma_message: "status_message (c_cosmo (compute_sigma c)) = status_message (c_cosmo c)"
  by (simp add: compute_sigma_def)

lemma sigmaM_result:
  "sigM_vec L (c_cosmo (compute_sigma cosmo)) a (map np_log10 (atleast_1d M)) (length (atleast_1d M)) 0 = (out, st)
   \<Longrightarrow> result (sigmaM L cosmo M a) =
       (if st = 0 then unwrap M out else Inl (CCLError st (status_message (c_cosmo cosmo))))"
  by (simp add: sigmaM_def Let_def check_def compute_sigma_message)

lemma sigmaR_result:
  "parse_pk2d cosmo p True = Inr psp \<Longrightarrow>
   sigmaR_vec L (c_cosmo cosmo) psp a (atleast_1d R) (length (atleast_1d R)) 0 = (out, st)
   \<Longrightarrow> result (sigmaR L cosmo R a p) =
       (if st = 0 then unwrap R out else Inl (CCLError st (status_message (c_cosmo cosmo))))"
  by (simp add: sigmaR_def Let_def check_def)

lemma sigmaV_result:
  "parse_pk2d cosmo p True = Inr psp \<Longrightarrow>
   sigmaV_vec L (c_cosmo cosmo) psp a (atleast_1d R) (length (atleast_1d R)) 0 = (out, st)
   \<Longrightarrow> result (sigmaV L cosmo R a p) =
       (if st = 0 then unwrap R out else Inl (CCLError st (status_message (c_cosmo cosmo))))"
  by (simp add: sigmaV_def Let_def check_def)

lemma kNL_result:
  "parse_pk2d cosmo p True = Inr psp \<Longrightarrow>
   kNL_vec L (c_cosmo cosmo) psp (atleast_1d a) (length (atleast_1d a)) 0 = (out, st)
   \<Longrightarrow> result (kNL L cosmo a p) =
       (if st = 0 then unwrap a out else Inl (CCLError st (status_message (c_cosmo cosmo))))"
  by (simp add: kNL_def Let_def check_def)

lemmas example_defs =
  example_lib_def example_cosmo_def example_cosmo_s8_def echo_def rejected_def
  DEFAULT_POWER_SPECTRUM_def parse_pk2d_def get_linear_power_def get_nonlin_power_def
  lookup_pk_def compute_sigma_def fill_params_sigma8_def check_def atleast_1d_def ndim_def
  unwrap_def getitem0_def np_isnan_def py_truediv_def shape_def

lemma np_log10_one: "np_log10 (Fl 1) = Fl 0"
  by (simp add: np_log10_def)

lemma log10_less_self:
  fixes r :: real
  assumes "0 < r"
  shows "log 10 r < r"
proof (cases "r \<le> 1")
  case True
  then have "ln r \<le> 0" using assms by simp
  moreover have "0 < ln (10::real)" by simp
  ultimately have "log 10 r \<le> 0"
    by (simp add: log_def divide_le_0_iff)
  from this assms show ?thesis by linarith
next
  case False
  then have r1: "1 < r" by simp
  have "exp (1::real) \<le> 3" by (rule exp_le)
  then have "exp (1::real) < 10" by simp
  then have "ln (exp (1::real)) < ln 10" by (subst ln_less_cancel_iff) simp_all
  then have l10: "1 < ln (10::real)" by simp
  have lr: "0 < ln r" using r1 by simp
  have "ln r / ln 10 < ln r / 1"
    using lr l10 by (intro divide_strict_left_mono) simp_all
  moreover have "ln r \<le> r - 1" using assms by (rule ln_le_minus_one)
  ultimately show ?thesis by (simp add: log_def)
qed

lemma np_log10_moves:
  assumes "positive_mass x"
  shows "np_log10 x \<noteq> x" and "np_log10 (np_log10 x) \<noteq> np_log10 x"
proof -
  from assms obtain r where x: "x = Fl r" and r: "0 < r"
    by (cases x) (simp_all add: positive_mass_def)
  show "np_log10 x \<noteq> x"
    using log10_less_self [OF r] by (simp add: x np_log10_def r)
  show "np_log10 (np_log10 x) \<noteq> np_log10 x"
  proof (cases "0 < log 10 r")
    case True
    have "log 10 (log 10 r) < log 10 r" by (rule log10_less_self [OF True])
    then have "log 10 (log 10 r) \<noteq> log 10 r" by linarith
    then show ?thesis by (simp add: x np_log10_def r True)
  next
    case False
    then show ?thesis by (simp add: x np_log10_def r)
  qed
qed

lemma map_differs:
  assumes "xs \<noteq> []" and "list_all (\<lambda>x. f x \<noteq> g x) xs"
  shows "map f xs \<noteq> map g xs"
  using assms by (cases xs) simp_all

lemma sigmaR_outcome:
  "sigmaR L cosmo R a p =
     (case parse_pk2d cosmo p True of
        Inl e \<Rightarrow> (Inl e, cosmo, [Parse_pk2d p True])
      | Inr psp \<Rightarrow>
          (case sigmaR_vec L (c_cosmo cosmo) psp a (atleast_1d R) (length (atleast_1d R)) 0 of
             (out, st) \<Rightarrow>
               (if st = 0 then unwrap R out
                else Inl (CCLError st (status_message (c_cosmo cosmo))),
                cosmo,
                [Parse_pk2d p True,
                 SigmaR_vec (c_cosmo cosmo) psp a (atleast_1d R) (length (atleast_1d R)) 0,
                 Check st])))"
  by (simp add: sigmaR_def Let_def check_def split: sum.splits prod.splits)

lemma sigmaV_outcome:
  "sigmaV L cosmo R a p =
     (case parse_pk2d cosmo p True of
        Inl e \<Rightarrow> (Inl e, cosmo, [Parse_pk2d p True])
      | Inr psp \<Rightarrow>
          (case sigmaV_vec L (c_cosmo cosmo) psp a (atleast_1d R) (length (atleast_1d R)) 0 of
             (out, st) \<Rightarrow>
               (if st = 0 then unwrap R out
                else Inl (CCLError st (status_message (c_cosmo cosmo))),
                cosmo,
                [Parse_pk2d p True,
                 SigmaV_vec (c_cosmo cosmo) psp a (atleast_1d R) (length (atleast_1d R)) 0,
                 Check st])))"
  by (simp add: sigmaV_def Let_def check_def split: sum.splits prod.splits)

lemma kNL_outcome:
  "kNL L cosmo a p =
     (case parse_pk2d cosmo p True of
        Inl e \<Rightarrow> (Inl e, cosmo, [Parse_pk2d p True])
      | Inr psp \<Rightarrow>
          (case kNL_vec L (c_cosmo cosmo) psp (atleast_1d a) (length (atleast_1d a)) 0 of
             (out, st) \<Rightarrow>
               (if st = 0 then unwrap a out
                else Inl (CCLError st (status_message (c_cosmo cosmo))),
                cosmo,
                [Parse_pk2d p True,
                 KNL_vec (c_cosmo cosmo) psp (atleast_1d a) (length (atleast_1d a)) 0,
                 Check st])))"
  by (simp add: kNL_def Let_def check_def split: sum.splits prod.splits)

lemma sigmaM_outcome:
  "sigmaM L cosmo M a =
     (case sigM_vec L (c_cosmo (compute_sigma cosmo)) a (map np_log10 (atleast_1d M))
             (length (atleast_1d M)) 0 of
        (out, st) \<Rightarrow>
          (if st = 0 then unwrap M out
           else Inl (CCLError st (status_message (c_cosmo cosmo))),
           compute_sigma cosmo,
           [Compute_sigma,
            SigM_vec (c_cosmo (compute_sigma cosmo)) a (map np_log10 (atleast_1d M))
              (length (atleast_1d M)) 0,
            Check st]))"
  by (simp add: sigmaM_def Let_def check_def compute_sigma_message split: sum.splits prod.splits)

lemma sigmaR_context_after: "context_after (sigmaR L cosmo R a p) = cosmo"
  by (simp add: sigmaR_outcome split: sum.splits prod.splits)

lemma sigmaV_context_after: "context_after (sigmaV L cosmo R a p) = cosmo"
  by (simp add: sigmaV_outcome split: sum.splits prod.splits)

lemma kNL_context_after: "context_after (kNL L cosmo a p) = cosmo"
  by (simp add: kNL_outcome split: sum.splits prod.splits)

lemma sigmaM_context_after: "context_after (sigmaM L cosmo M a) = compute_sigma cosmo"
  by (simp add: sigmaM_outcome split: sum.splits prod.splits)

lemma sigmaR_fills: "fills (calls (sigmaR L cosmo R a p)) = []"
  by (simp add: sigmaR_outcome split: sum.splits prod.splits)

lemma sigmaV_fills: "fills (calls (sigmaV L cosmo R a p)) = []"
  by (simp add: sigmaV_outcome split: sum.splits prod.splits)

lemma kNL_fills: "fills (calls (kNL L cosmo a p)) = []"
  by (simp add: kNL_outcome split: sum.splits prod.splits)

lemma sigmaM_fills: "fills (calls (sigmaM L cosmo M a)) = []"
  by (simp add: sigmaM_outcome split: sum.splits prod.splits)

lemma parse_pk2d_ignores_sigma8:
  "parse_pk2d (cosmo\<lparr>param_sigma8 := x\<rparr>) p b = parse_pk2d cosmo p b"
  by (simp add: parse_pk2d_def get_linear_power_def get_nonlin_power_def)

lemma sigmaR_ignores_sigma8:
  "result (sigmaR L (cosmo\<lparr>param_sigma8 := x\<rparr>) R a p) = result (sigmaR L cosmo R a p)"
  "calls (sigmaR L (cosmo\<lparr>param_sigma8 := x\<rparr>) R a p) = calls (sigmaR L cosmo R a p)"
  by (simp_all add: sigmaR_outcome parse_pk2d_ignores_sigma8 split: sum.splits prod.splits)

lemma sigmaR_Scalar_result:
  "result (sigmaR L cosmo (Scalar r) a p) = Inr w \<Longrightarrow> \<exists>s. w = Scalar s"
  by (auto simp add: sigmaR_outcome unwrap_Scalar split: sum.splits prod.splits if_splits list.splits)

text \<open>What \<^verbatim>\<open>sigma8\<close> does once the division has given the radius.\<close>

lemma sigma8_outcome:
  assumes "py_truediv (Fl 8) (param_h cosmo) = Inr r"
  shows "sigma8 L cosmo p =
     (case result (sigmaR L cosmo (Scalar r) (Scalar (Fl 1)) p) of
        Inl e \<Rightarrow> (Inl e, cosmo, calls (sigmaR L cosmo (Scalar r) (Scalar (Fl 1)) p))
      | Inr w \<Rightarrow>
          (case w of
             Scalar s \<Rightarrow>
               if np_isnan (param_sigma8 cosmo)
               then (Inr (Scalar s), cosmo\<lparr>param_sigma8 := s\<rparr>,
                     calls (sigmaR L cosmo (Scalar r) (Scalar (Fl 1)) p) @ [Fill_params_sigma8 s])
               else (Inr (Scalar s), cosmo, calls (sigmaR L cosmo (Scalar r) (Scalar (Fl 1)) p))
           | Array ss \<Rightarrow>
               (Inr (Array ss), cosmo, calls (sigmaR L cosmo (Scalar r) (Scalar (Fl 1)) p))))"
proof -
  obtain res c1 made where o: "sigmaR L cosmo (Scalar r) (Scalar (Fl 1)) p = (res, c1, made)"
    by (cases "sigmaR L cosmo (Scalar r) (Scalar (Fl 1)) p") auto
  have c1: "c1 = cosmo"
    using sigmaR_context_after [of L cosmo "Scalar r" "Scalar (Fl 1)" p] by (simp add: o)
  show ?thesis
    by (simp add: sigma8_def assms Cosmology_sigmaR_def o c1 fill_params_sigma8_def
        split: sum.splits nd.splits)
qed

lemma sigma8_division_error:
  assumes "py_truediv (Fl 8) (param_h cosmo) = Inl e"
  shows "sigma8 L cosmo p = (Inl e, cosmo, [])"
  by (simp add: sigma8_def assms)

lemma fills_append: "fills (xs @ ys) = fills xs @ fills ys"
  by (induction xs rule: fills.induct) simp_all

lemma linear_power_frame:
  "context_after (linear_power L cosmo k a p) = cosmo"
  "fills (calls (linear_power L cosmo k a p)) = []"
  by (simp_all add: linear_power_def split: sum.splits)

lemma nonlin_power_frame:
  "context_after (nonlin_power L cosmo k a p) = cosmo"
  "fills (calls (nonlin_power L cosmo k a p)) = []"
  by (simp_all add: nonlin_power_def split: sum.splits)

lemma compute_sigma_idem: "compute_sigma (compute_sigma cosmo) = compute_sigma cosmo"
  by (simp add: compute_sigma_def)

lemma compute_sigma_computed: "computed_sigma (c_cosmo cosmo) \<Longrightarrow> compute_sigma cosmo = cosmo"
  by (simp add: compute_sigma_def)

lemma compute_sigma_params:
  "param_h (compute_sigma cosmo) = param_h cosmo"
  "param_sigma8 (compute_sigma cosmo) = param_sigma8 cosmo"
  "pk_linear (compute_sigma cosmo) = pk_linear cosmo"
  "pk_nonlin (compute_sigma cosmo) = pk_nonlin cosmo"
  by (simp_all add: compute_sigma_def)

lemma sigma8_effect:
  "fills (calls (sigma8 L cosmo p)) =
     (if np_isnan (param_sigma8 cosmo)
      then (case result (sigma8 L cosmo p) of Inr (Scalar s) \<Rightarrow> [s] | _ \<Rightarrow> [])
      else [])"
  "context_after (sigma8 L cosmo p) =
     (if np_isnan (param_sigma8 cosmo)
      then (case result (sigma8 L cosmo p) of
              Inr (Scalar s) \<Rightarrow> cosmo\<lparr>param_sigma8 := s\<rparr> | _ \<Rightarrow> cosmo)
      else cosmo)"
proof -
  show "fills (calls (sigma8 L cosmo p)) =
     (if np_isnan (param_sigma8 cosmo)
      then (case result (sigma8 L cosmo p) of Inr (Scalar s) \<Rightarrow> [s] | _ \<Rightarrow> [])
      else [])"
  proof (cases "py_truediv (Fl 8) (param_h cosmo)")
    case (Inl e)
    then show ?thesis by (simp add: sigma8_division_error)
  next
    case (Inr r)
    show ?thesis
      using sigmaR_fills [of L cosmo "Scalar r" "Scalar (Fl 1)" p]
      by (simp add: sigma8_outcome [OF Inr] fills_append split: sum.splits nd.splits)
  qed
  show "context_after (sigma8 L cosmo p) =
     (if np_isnan (param_sigma8 cosmo)
      then (case result (sigma8 L cosmo p) of
              Inr (Scalar s) \<Rightarrow> cosmo\<lparr>param_sigma8 := s\<rparr> | _ \<Rightarrow> cosmo)
      else cosmo)"
  proof (cases "py_truediv (Fl 8) (param_h cosmo)")
    case (Inl e)
    then show ?thesis by (simp add: sigma8_division_error)
  next
    case (Inr r)
    show ?thesis
      by (simp add: sigma8_outcome [OF Inr] split: sum.splits nd.splits)
  qed
qed

lemma sigma8_fills_at_most_one: "length (fills (calls (sigma8 L cosmo p))) \<le> 1"
  by (simp add: sigma8_effect(1) split: sum.splits nd.splits)

lemma compute_sigma_fixed_iff: "compute_sigma cosmo = cosmo \<longleftrightarrow> computed_sigma (c_cosmo cosmo)"
proof
  assume "compute_sigma cosmo = cosmo"
  then have "computed_sigma (c_cosmo (compute_sigma cosmo)) = computed_sigma (c_cosmo cosmo)"
    by simp
  then show "computed_sigma (c_cosmo cosmo)" by (simp add: compute_sigma_def)
next
  assume "computed_sigma (c_cosmo cosmo)"
  then show "compute_sigma cosmo = cosmo" by (rule compute_sigma_computed)
qed


section \<open>Properties\<close>

subsection \<open>Shape of the result\<close>

text \<open>
  Claim C1. For \<^verbatim>\<open>sigmaM\<close>, \<^verbatim>\<open>sigmaR\<close>, \<^verbatim>\<open>sigmaV\<close> and \<^verbatim>\<open>kNL\<close> the shape of
  the result is the shape of the varying argument (\<^verbatim>\<open>M\<close>, \<^verbatim>\<open>R\<close> or \<^verbatim>\<open>a\<close>): when
  the engine call returns status zero and an array as long as the one it was given, a
  number gives a number and an array of length n gives an array of length n.
\<close>

theorem output_shape_mirrors_input:
  "(sigM_vec L (c_cosmo (compute_sigma cosmo)) a (map np_log10 (atleast_1d M))
       (length (atleast_1d M)) 0 = (outM, 0) \<and> length outM = length (atleast_1d M)
     \<longrightarrow> (\<exists>v. result (sigmaM L cosmo M a) = Inr v \<and> shape v = shape M))
   \<and> (parse_pk2d cosmo p True = Inr psp
       \<and> sigmaR_vec L (c_cosmo cosmo) psp a (atleast_1d R) (length (atleast_1d R)) 0 = (outR, 0)
       \<and> length outR = length (atleast_1d R)
     \<longrightarrow> (\<exists>v. result (sigmaR L cosmo R a p) = Inr v \<and> shape v = shape R))
   \<and> (parse_pk2d cosmo p True = Inr psp
       \<and> sigmaV_vec L (c_cosmo cosmo) psp a (atleast_1d R) (length (atleast_1d R)) 0 = (outV, 0)
       \<and> length outV = length (atleast_1d R)
     \<longrightarrow> (\<exists>v. result (sigmaV L cosmo R a p) = Inr v \<and> shape v = shape R))
   \<and> (parse_pk2d cosmo p True = Inr psp
       \<and> kNL_vec L (c_cosmo cosmo) psp (atleast_1d a) (length (atleast_1d a)) 0 = (outK, 0)
       \<and> length outK = length (atleast_1d a)
     \<longrightarrow> (\<exists>v. result (kNL L cosmo a p) = Inr v \<and> shape v = shape a))"
proof (intro conjI impI)
  assume "sigM_vec L (c_cosmo (compute_sigma cosmo)) a (map np_log10 (atleast_1d M))
       (length (atleast_1d M)) 0 = (outM, 0) \<and> length outM = length (atleast_1d M)"
  then show "\<exists>v. result (sigmaM L cosmo M a) = Inr v \<and> shape v = shape M"
    using sigmaM_result [of L cosmo a M outM 0] unwrap_shape [of outM M] by simp
next
  assume "parse_pk2d cosmo p True = Inr psp
       \<and> sigmaR_vec L (c_cosmo cosmo) psp a (atleast_1d R) (length (atleast_1d R)) 0 = (outR, 0)
       \<and> length outR = length (atleast_1d R)"
  then show "\<exists>v. result (sigmaR L cosmo R a p) = Inr v \<and> shape v = shape R"
    using sigmaR_result [of cosmo p psp L a R outR 0] unwrap_shape [of outR R] by simp
next
  assume "parse_pk2d cosmo p True = Inr psp
       \<and> sigmaV_vec L (c_cosmo cosmo) psp a (atleast_1d R) (length (atleast_1d R)) 0 = (outV, 0)
       \<and> length outV = length (atleast_1d R)"
  then show "\<exists>v. result (sigmaV L cosmo R a p) = Inr v \<and> shape v = shape R"
    using sigmaV_result [of cosmo p psp L a R outV 0] unwrap_shape [of outV R] by simp
next
  assume "parse_pk2d cosmo p True = Inr psp
       \<and> kNL_vec L (c_cosmo cosmo) psp (atleast_1d a) (length (atleast_1d a)) 0 = (outK, 0)
       \<and> length outK = length (atleast_1d a)"
  then show "\<exists>v. result (kNL L cosmo a p) = Inr v \<and> shape v = shape a"
    using kNL_result [of cosmo p psp L a outK 0] unwrap_shape [of outK a] by simp
qed

text \<open>
  An instance on the stand-in engine: an array of two masses gives an array of length
  two, and a single radius or scale factor gives a number.
\<close>

theorem output_shape_mirrors_input_witness:
  "sigM_vec example_lib (c_cosmo (compute_sigma example_cosmo)) (Scalar (Fl 1))
       (map np_log10 (atleast_1d (Array [Fl 1, Fl 1]))) (length (atleast_1d (Array [Fl 1, Fl 1]))) 0
     = ([Fl 0, Fl 0], 0)
   \<and> parse_pk2d example_cosmo DEFAULT_POWER_SPECTRUM True = Inr 1
   \<and> sigmaR_vec example_lib (c_cosmo example_cosmo) 1 (Scalar (Fl 1)) (atleast_1d (Scalar (Fl 2)))
        (length (atleast_1d (Scalar (Fl 2)))) 0 = ([Fl 2], 0)
   \<and> sigmaV_vec example_lib (c_cosmo example_cosmo) 1 (Scalar (Fl 1)) (atleast_1d (Scalar (Fl 2)))
        (length (atleast_1d (Scalar (Fl 2)))) 0 = ([Fl 2], 0)
   \<and> kNL_vec example_lib (c_cosmo example_cosmo) 1 (atleast_1d (Scalar (Fl 1)))
        (length (atleast_1d (Scalar (Fl 1)))) 0 = ([Fl 1], 0)
   \<and> (\<exists>v. result (sigmaM example_lib example_cosmo (Array [Fl 1, Fl 1]) (Scalar (Fl 1))) = Inr v
          \<and> shape v = Some 2)
   \<and> (\<exists>v. result (sigmaR example_lib example_cosmo (Scalar (Fl 2)) (Scalar (Fl 1))
                 DEFAULT_POWER_SPECTRUM) = Inr v \<and> shape v = None)
   \<and> (\<exists>v. result (sigmaV example_lib example_cosmo (Scalar (Fl 2)) (Scalar (Fl 1))
                 DEFAULT_POWER_SPECTRUM) = Inr v \<and> shape v = None)
   \<and> (\<exists>v. result (kNL example_lib example_cosmo (Scalar (Fl 1)) DEFAULT_POWER_SPECTRUM) = Inr v
          \<and> shape v = None)"
proof -
  have hM: "sigM_vec example_lib (c_cosmo (compute_sigma example_cosmo)) (Scalar (Fl 1))
       (map np_log10 (atleast_1d (Array [Fl 1, Fl 1]))) (length (atleast_1d (Array [Fl 1, Fl 1]))) 0
     = ([Fl 0, Fl 0], 0)"
    by (simp add: example_defs np_log10_one)
  have hP: "parse_pk2d example_cosmo DEFAULT_POWER_SPECTRUM True = Inr 1"
    by (simp add: example_defs)
  have hR: "sigmaR_vec example_lib (c_cosmo example_cosmo) 1 (Scalar (Fl 1)) (atleast_1d (Scalar (Fl 2)))
        (length (atleast_1d (Scalar (Fl 2)))) 0 = ([Fl 2], 0)"
    by (simp add: example_defs)
  have hV: "sigmaV_vec example_lib (c_cosmo example_cosmo) 1 (Scalar (Fl 1)) (atleast_1d (Scalar (Fl 2)))
        (length (atleast_1d (Scalar (Fl 2)))) 0 = ([Fl 2], 0)"
    by (simp add: example_defs)
  have hK: "kNL_vec example_lib (c_cosmo example_cosmo) 1 (atleast_1d (Scalar (Fl 1)))
        (length (atleast_1d (Scalar (Fl 1)))) 0 = ([Fl 1], 0)"
    by (simp add: example_defs)
  have sh: "shape (Array [Fl 1, Fl 1]) = Some 2" "shape (Scalar (Fl 2)) = None"
    "shape (Scalar (Fl 1)) = None"
    by (simp_all add: shape_def)
  have len: "length [Fl 0, Fl 0] = length (atleast_1d (Array [Fl 1, Fl 1]))"
    "length [Fl 2] = length (atleast_1d (Scalar (Fl 2)))"
    "length [Fl 1] = length (atleast_1d (Scalar (Fl 1)))"
    by (simp_all add: atleast_1d_def)
  show ?thesis
    using output_shape_mirrors_input [of example_lib example_cosmo "Scalar (Fl 1)"
        "Array [Fl 1, Fl 1]" "[Fl 0, Fl 0]" DEFAULT_POWER_SPECTRUM 1 "Scalar (Fl 2)" "[Fl 2]" "[Fl 2]"
        "[Fl 1]"]
      hM hP hR hV hK len
    by (simp only: sh simp_thms)
qed

text \<open>
  Claim C10. \<^verbatim>\<open>sigmaM\<close>, \<^verbatim>\<open>sigmaR\<close>, \<^verbatim>\<open>sigmaV\<close> and \<^verbatim>\<open>kNL\<close> return a number
  only when the varying argument has zero dimensions. For a one-dimensional array of
  length 1, the engine returning status zero and one element, the result is the array of
  length 1.
\<close>

theorem length_one_array_is_not_unwrapped:
  "(result (sigmaM L cosmo M a) = Inr (Scalar v) \<longrightarrow> ndim M = 0)
   \<and> (result (sigmaR L cosmo R a p) = Inr (Scalar v) \<longrightarrow> ndim R = 0)
   \<and> (result (sigmaV L cosmo R a p) = Inr (Scalar v) \<longrightarrow> ndim R = 0)
   \<and> (result (kNL L cosmo a p) = Inr (Scalar v) \<longrightarrow> ndim a = 0)
   \<and> (sigM_vec L (c_cosmo (compute_sigma cosmo)) a' (map np_log10 (atleast_1d (Array [x])))
         (length (atleast_1d (Array [x]))) 0 = (outM, 0) \<and> length outM = 1
       \<longrightarrow> result (sigmaM L cosmo (Array [x]) a') = Inr (Array outM)
           \<and> shape (Array outM) = Some 1)
   \<and> (parse_pk2d cosmo p True = Inr psp
       \<and> sigmaR_vec L (c_cosmo cosmo) psp a' (atleast_1d (Array [x]))
            (length (atleast_1d (Array [x]))) 0 = (outR, 0) \<and> length outR = 1
       \<longrightarrow> result (sigmaR L cosmo (Array [x]) a' p) = Inr (Array outR)
           \<and> shape (Array outR) = Some 1)
   \<and> (parse_pk2d cosmo p True = Inr psp
       \<and> sigmaV_vec L (c_cosmo cosmo) psp a' (atleast_1d (Array [x]))
            (length (atleast_1d (Array [x]))) 0 = (outV, 0) \<and> length outV = 1
       \<longrightarrow> result (sigmaV L cosmo (Array [x]) a' p) = Inr (Array outV)
           \<and> shape (Array outV) = Some 1)
   \<and> (parse_pk2d cosmo p True = Inr psp
       \<and> kNL_vec L (c_cosmo cosmo) psp (atleast_1d (Array [x]))
            (length (atleast_1d (Array [x]))) 0 = (outK, 0) \<and> length outK = 1
       \<longrightarrow> result (kNL L cosmo (Array [x]) p) = Inr (Array outK)
           \<and> shape (Array outK) = Some 1)"
proof -
  have s1: "result (sigmaM L cosmo M a) = Inr (Scalar v) \<longrightarrow> ndim M = 0"
    by (auto simp add: sigmaM_outcome split: prod.splits if_splits dest: unwrap_not_Scalar)
  have s2: "result (sigmaR L cosmo R a p) = Inr (Scalar v) \<longrightarrow> ndim R = 0"
    by (auto simp add: sigmaR_outcome split: sum.splits prod.splits if_splits
        dest: unwrap_not_Scalar)
  have s3: "result (sigmaV L cosmo R a p) = Inr (Scalar v) \<longrightarrow> ndim R = 0"
    by (auto simp add: sigmaV_outcome split: sum.splits prod.splits if_splits
        dest: unwrap_not_Scalar)
  have s4: "result (kNL L cosmo a p) = Inr (Scalar v) \<longrightarrow> ndim a = 0"
    by (auto simp add: kNL_outcome split: sum.splits prod.splits if_splits
        dest: unwrap_not_Scalar)
  have a1: "sigM_vec L (c_cosmo (compute_sigma cosmo)) a' (map np_log10 (atleast_1d (Array [x])))
         (length (atleast_1d (Array [x]))) 0 = (outM, 0) \<and> length outM = 1
       \<longrightarrow> result (sigmaM L cosmo (Array [x]) a') = Inr (Array outM)
           \<and> shape (Array outM) = Some 1"
    by (simp add: sigmaM_outcome unwrap_Array shape_def)
  have a2: "parse_pk2d cosmo p True = Inr psp
       \<and> sigmaR_vec L (c_cosmo cosmo) psp a' (atleast_1d (Array [x]))
            (length (atleast_1d (Array [x]))) 0 = (outR, 0) \<and> length outR = 1
       \<longrightarrow> result (sigmaR L cosmo (Array [x]) a' p) = Inr (Array outR)
           \<and> shape (Array outR) = Some 1"
    by (simp add: sigmaR_outcome unwrap_Array shape_def)
  have a3: "parse_pk2d cosmo p True = Inr psp
       \<and> sigmaV_vec L (c_cosmo cosmo) psp a' (atleast_1d (Array [x]))
            (length (atleast_1d (Array [x]))) 0 = (outV, 0) \<and> length outV = 1
       \<longrightarrow> result (sigmaV L cosmo (Array [x]) a' p) = Inr (Array outV)
           \<and> shape (Array outV) = Some 1"
    by (simp add: sigmaV_outcome unwrap_Array shape_def)
  have a4: "parse_pk2d cosmo p True = Inr psp
       \<and> kNL_vec L (c_cosmo cosmo) psp (atleast_1d (Array [x]))
            (length (atleast_1d (Array [x]))) 0 = (outK, 0) \<and> length outK = 1
       \<longrightarrow> result (kNL L cosmo (Array [x]) p) = Inr (Array outK)
           \<and> shape (Array outK) = Some 1"
    by (simp add: kNL_outcome unwrap_Array shape_def)
  from s1 s2 s3 s4 a1 a2 a3 a4 show ?thesis by (intro conjI)
qed

text \<open>
  Instances: the number 1 as argument gives the number 1, the array holding 1 gives an
  array of one element.
\<close>

theorem length_one_array_is_not_unwrapped_witness:
  "result (sigmaM example_lib example_cosmo (Scalar (Fl 10)) (Scalar (Fl 1))) = Inr (Scalar (Fl 1))
   \<and> result (sigmaR example_lib example_cosmo (Scalar (Fl 1)) (Scalar (Fl 1)) DEFAULT_POWER_SPECTRUM)
       = Inr (Scalar (Fl 1))
   \<and> result (sigmaV example_lib example_cosmo (Scalar (Fl 1)) (Scalar (Fl 1)) DEFAULT_POWER_SPECTRUM)
       = Inr (Scalar (Fl 1))
   \<and> result (kNL example_lib example_cosmo (Scalar (Fl 1)) DEFAULT_POWER_SPECTRUM)
       = Inr (Scalar (Fl 1))
   \<and> ndim (Scalar (Fl 10)) = 0 \<and> ndim (Scalar (Fl 1)) = 0
   \<and> sigM_vec example_lib (c_cosmo (compute_sigma example_cosmo)) (Scalar (Fl 1))
        (map np_log10 (atleast_1d (Array [Fl 1]))) (length (atleast_1d (Array [Fl 1]))) 0
       = ([Fl 0], 0)
   \<and> parse_pk2d example_cosmo DEFAULT_POWER_SPECTRUM True = Inr 1
   \<and> sigmaR_vec example_lib (c_cosmo example_cosmo) 1 (Scalar (Fl 1)) (atleast_1d (Array [Fl 1]))
        (length (atleast_1d (Array [Fl 1]))) 0 = ([Fl 1], 0)
   \<and> sigmaV_vec example_lib (c_cosmo example_cosmo) 1 (Scalar (Fl 1)) (atleast_1d (Array [Fl 1]))
        (length (atleast_1d (Array [Fl 1]))) 0 = ([Fl 1], 0)
   \<and> kNL_vec example_lib (c_cosmo example_cosmo) 1 (atleast_1d (Array [Fl 1]))
        (length (atleast_1d (Array [Fl 1]))) 0 = ([Fl 1], 0)
   \<and> result (sigmaM example_lib example_cosmo (Array [Fl 1]) (Scalar (Fl 1))) = Inr (Array [Fl 0])
   \<and> result (sigmaR example_lib example_cosmo (Array [Fl 1]) (Scalar (Fl 1)) DEFAULT_POWER_SPECTRUM)
       = Inr (Array [Fl 1])
   \<and> result (sigmaV example_lib example_cosmo (Array [Fl 1]) (Scalar (Fl 1)) DEFAULT_POWER_SPECTRUM)
       = Inr (Array [Fl 1])
   \<and> result (kNL example_lib example_cosmo (Array [Fl 1]) DEFAULT_POWER_SPECTRUM)
       = Inr (Array [Fl 1])"
proof -
  have lg: "np_log10 (Fl 10) = Fl 1"
    by (simp add: np_log10_def)
  have r1: "result (sigmaM example_lib example_cosmo (Scalar (Fl 10)) (Scalar (Fl 1)))
      = Inr (Scalar (Fl 1))"
    by (simp add: sigmaM_def Let_def example_defs lg)
  have r2: "result (sigmaR example_lib example_cosmo (Scalar (Fl 1)) (Scalar (Fl 1))
      DEFAULT_POWER_SPECTRUM) = Inr (Scalar (Fl 1))"
    by (simp add: sigmaR_def Let_def example_defs)
  have r3: "result (sigmaV example_lib example_cosmo (Scalar (Fl 1)) (Scalar (Fl 1))
      DEFAULT_POWER_SPECTRUM) = Inr (Scalar (Fl 1))"
    by (simp add: sigmaV_def Let_def example_defs)
  have r4: "result (kNL example_lib example_cosmo (Scalar (Fl 1)) DEFAULT_POWER_SPECTRUM)
      = Inr (Scalar (Fl 1))"
    by (simp add: kNL_def Let_def example_defs)
  have hM: "sigM_vec example_lib (c_cosmo (compute_sigma example_cosmo)) (Scalar (Fl 1))
        (map np_log10 (atleast_1d (Array [Fl 1]))) (length (atleast_1d (Array [Fl 1]))) 0
       = ([Fl 0], 0)"
    by (simp add: example_defs np_log10_one)
  have hP: "parse_pk2d example_cosmo DEFAULT_POWER_SPECTRUM True = Inr 1"
    by (simp add: example_defs)
  have hR: "sigmaR_vec example_lib (c_cosmo example_cosmo) 1 (Scalar (Fl 1))
        (atleast_1d (Array [Fl 1])) (length (atleast_1d (Array [Fl 1]))) 0 = ([Fl 1], 0)"
    by (simp add: example_defs)
  have hV: "sigmaV_vec example_lib (c_cosmo example_cosmo) 1 (Scalar (Fl 1))
        (atleast_1d (Array [Fl 1])) (length (atleast_1d (Array [Fl 1]))) 0 = ([Fl 1], 0)"
    by (simp add: example_defs)
  have hK: "kNL_vec example_lib (c_cosmo example_cosmo) 1 (atleast_1d (Array [Fl 1]))
        (length (atleast_1d (Array [Fl 1]))) 0 = ([Fl 1], 0)"
    by (simp add: example_defs)
  have len: "length [Fl 0] = 1" "length [Fl 1] = 1"
    by simp_all
  note inst = length_one_array_is_not_unwrapped [where L = example_lib and cosmo = example_cosmo
      and M = "Scalar (Fl 10)" and a = "Scalar (Fl 1)" and v = "Fl 1" and R = "Scalar (Fl 1)"
      and p = DEFAULT_POWER_SPECTRUM and a' = "Scalar (Fl 1)" and x = "Fl 1"
      and outM = "[Fl 0]" and psp = 1 and outR = "[Fl 1]" and outV = "[Fl 1]" and outK = "[Fl 1]"]
  show ?thesis
    using inst r1 r2 r3 r4 hM hP hR hV hK len by blast
qed


subsection \<open>Status of the engine\<close>

text \<open>
  Claim C2. For \<^verbatim>\<open>sigmaM\<close>, \<^verbatim>\<open>sigmaR\<close>, \<^verbatim>\<open>sigmaV\<close> and \<^verbatim>\<open>kNL\<close>: when the
  engine routine returns a status other than zero, the operation raises the error that
  carries the status and the diagnostic message of the context, and returns no number;
  when the status is zero, the output array having the length the call asked for, the
  operation returns the engine's output, its only element when the argument is a number.
\<close>

theorem nonzero_status_raises:
  "(sigM_vec L (c_cosmo (compute_sigma cosmo)) a (map np_log10 (atleast_1d M))
       (length (atleast_1d M)) 0 = (outM, stM)
     \<longrightarrow> (stM \<noteq> 0 \<longrightarrow>
            result (sigmaM L cosmo M a) = Inl (CCLError stM (status_message (c_cosmo cosmo))))
         \<and> (stM = 0 \<and> length outM = length (atleast_1d M) \<longrightarrow>
            result (sigmaM L cosmo M a) = Inr (if ndim M = 0 then Scalar (outM ! 0) else Array outM)))
   \<and> (parse_pk2d cosmo p True = Inr psp
       \<and> sigmaR_vec L (c_cosmo cosmo) psp a (atleast_1d R) (length (atleast_1d R)) 0 = (outR, stR)
     \<longrightarrow> (stR \<noteq> 0 \<longrightarrow>
            result (sigmaR L cosmo R a p) = Inl (CCLError stR (status_message (c_cosmo cosmo))))
         \<and> (stR = 0 \<and> length outR = length (atleast_1d R) \<longrightarrow>
            result (sigmaR L cosmo R a p) = Inr (if ndim R = 0 then Scalar (outR ! 0) else Array outR)))
   \<and> (parse_pk2d cosmo p True = Inr psp
       \<and> sigmaV_vec L (c_cosmo cosmo) psp a (atleast_1d R) (length (atleast_1d R)) 0 = (outV, stV)
     \<longrightarrow> (stV \<noteq> 0 \<longrightarrow>
            result (sigmaV L cosmo R a p) = Inl (CCLError stV (status_message (c_cosmo cosmo))))
         \<and> (stV = 0 \<and> length outV = length (atleast_1d R) \<longrightarrow>
            result (sigmaV L cosmo R a p) = Inr (if ndim R = 0 then Scalar (outV ! 0) else Array outV)))
   \<and> (parse_pk2d cosmo p True = Inr psp
       \<and> kNL_vec L (c_cosmo cosmo) psp (atleast_1d a) (length (atleast_1d a)) 0 = (outK, stK)
     \<longrightarrow> (stK \<noteq> 0 \<longrightarrow>
            result (kNL L cosmo a p) = Inl (CCLError stK (status_message (c_cosmo cosmo))))
         \<and> (stK = 0 \<and> length outK = length (atleast_1d a) \<longrightarrow>
            result (kNL L cosmo a p) = Inr (if ndim a = 0 then Scalar (outK ! 0) else Array outK)))"
proof (intro conjI impI)
  assume "sigM_vec L (c_cosmo (compute_sigma cosmo)) a (map np_log10 (atleast_1d M))
       (length (atleast_1d M)) 0 = (outM, stM)" and "stM \<noteq> 0"
  then show "result (sigmaM L cosmo M a) = Inl (CCLError stM (status_message (c_cosmo cosmo)))"
    by (simp add: sigmaM_result)
next
  assume "sigM_vec L (c_cosmo (compute_sigma cosmo)) a (map np_log10 (atleast_1d M))
       (length (atleast_1d M)) 0 = (outM, stM)" and "stM = 0 \<and> length outM = length (atleast_1d M)"
  then show "result (sigmaM L cosmo M a) = Inr (if ndim M = 0 then Scalar (outM ! 0) else Array outM)"
    using unwrap_value [of outM M] by (simp add: sigmaM_result)
next
  assume "parse_pk2d cosmo p True = Inr psp
       \<and> sigmaR_vec L (c_cosmo cosmo) psp a (atleast_1d R) (length (atleast_1d R)) 0 = (outR, stR)"
    and "stR \<noteq> 0"
  then show "result (sigmaR L cosmo R a p) = Inl (CCLError stR (status_message (c_cosmo cosmo)))"
    by (simp add: sigmaR_result)
next
  assume "parse_pk2d cosmo p True = Inr psp
       \<and> sigmaR_vec L (c_cosmo cosmo) psp a (atleast_1d R) (length (atleast_1d R)) 0 = (outR, stR)"
    and "stR = 0 \<and> length outR = length (atleast_1d R)"
  then show "result (sigmaR L cosmo R a p) = Inr (if ndim R = 0 then Scalar (outR ! 0) else Array outR)"
    using unwrap_value [of outR R] by (simp add: sigmaR_result)
next
  assume "parse_pk2d cosmo p True = Inr psp
       \<and> sigmaV_vec L (c_cosmo cosmo) psp a (atleast_1d R) (length (atleast_1d R)) 0 = (outV, stV)"
    and "stV \<noteq> 0"
  then show "result (sigmaV L cosmo R a p) = Inl (CCLError stV (status_message (c_cosmo cosmo)))"
    by (simp add: sigmaV_result)
next
  assume "parse_pk2d cosmo p True = Inr psp
       \<and> sigmaV_vec L (c_cosmo cosmo) psp a (atleast_1d R) (length (atleast_1d R)) 0 = (outV, stV)"
    and "stV = 0 \<and> length outV = length (atleast_1d R)"
  then show "result (sigmaV L cosmo R a p) = Inr (if ndim R = 0 then Scalar (outV ! 0) else Array outV)"
    using unwrap_value [of outV R] by (simp add: sigmaV_result)
next
  assume "parse_pk2d cosmo p True = Inr psp
       \<and> kNL_vec L (c_cosmo cosmo) psp (atleast_1d a) (length (atleast_1d a)) 0 = (outK, stK)"
    and "stK \<noteq> 0"
  then show "result (kNL L cosmo a p) = Inl (CCLError stK (status_message (c_cosmo cosmo)))"
    by (simp add: kNL_result)
next
  assume "parse_pk2d cosmo p True = Inr psp
       \<and> kNL_vec L (c_cosmo cosmo) psp (atleast_1d a) (length (atleast_1d a)) 0 = (outK, stK)"
    and "stK = 0 \<and> length outK = length (atleast_1d a)"
  then show "result (kNL L cosmo a p) = Inr (if ndim a = 0 then Scalar (outK ! 0) else Array outK)"
    using unwrap_value [of outK a] by (simp add: kNL_result)
qed

text \<open>
  Instances on the stand-in engine: a negative mass, radius or scale factor is reported
  with status 1 and raised; a valid one is returned.
\<close>

theorem nonzero_status_raises_witness:
  "sigM_vec example_lib (c_cosmo (compute_sigma example_cosmo)) (Scalar (Fl 1))
       (map np_log10 (atleast_1d (Scalar (Fl 1)))) (length (atleast_1d (Scalar (Fl 1)))) 0
     = ([Fl 0], 0)
   \<and> result (sigmaM example_lib example_cosmo (Scalar (Fl 1)) (Scalar (Fl 1))) = Inr (Scalar (Fl 0))
   \<and> sigM_vec example_lib (c_cosmo (compute_sigma example_cosmo)) (Scalar (Fl 1))
       (map np_log10 (atleast_1d (Array [Fl 1, Fl (- 1)])))
       (length (atleast_1d (Array [Fl 1, Fl (- 1)]))) 0
     = ([Fl 0, NaN], 1)
   \<and> result (sigmaM example_lib example_cosmo (Array [Fl 1, Fl (- 1)]) (Scalar (Fl 1)))
       = Inl (CCLError 1 ''engine log'')
   \<and> parse_pk2d example_cosmo DEFAULT_POWER_SPECTRUM True = Inr 1
   \<and> sigmaR_vec example_lib (c_cosmo example_cosmo) 1 (Scalar (Fl 1)) (atleast_1d (Array [Fl 2]))
        (length (atleast_1d (Array [Fl 2]))) 0 = ([Fl 2], 0)
   \<and> result (sigmaR example_lib example_cosmo (Array [Fl 2]) (Scalar (Fl 1)) DEFAULT_POWER_SPECTRUM)
       = Inr (Array [Fl 2])
   \<and> sigmaR_vec example_lib (c_cosmo example_cosmo) 1 (Scalar (Fl 1)) (atleast_1d (Scalar (Fl (- 1))))
        (length (atleast_1d (Scalar (Fl (- 1))))) 0 = ([Fl (- 1)], 1)
   \<and> result (sigmaR example_lib example_cosmo (Scalar (Fl (- 1))) (Scalar (Fl 1))
         DEFAULT_POWER_SPECTRUM) = Inl (CCLError 1 ''engine log'')
   \<and> result (sigmaV example_lib example_cosmo (Array [Fl 2]) (Scalar (Fl 1)) DEFAULT_POWER_SPECTRUM)
       = Inr (Array [Fl 2])
   \<and> result (sigmaV example_lib example_cosmo (Scalar (Fl (- 1))) (Scalar (Fl 1))
         DEFAULT_POWER_SPECTRUM) = Inl (CCLError 1 ''engine log'')
   \<and> result (kNL example_lib example_cosmo (Scalar (Fl 1)) DEFAULT_POWER_SPECTRUM)
       = Inr (Scalar (Fl 1))
   \<and> result (kNL example_lib example_cosmo (Array [Fl (- 1)]) DEFAULT_POWER_SPECTRUM)
       = Inl (CCLError 1 ''engine log'')"
proof -
  have lg: "np_log10 (Fl (- 1)) = NaN"
    by (simp add: np_log10_def)
  have hM: "sigM_vec example_lib (c_cosmo (compute_sigma example_cosmo)) (Scalar (Fl 1))
       (map np_log10 (atleast_1d (Scalar (Fl 1)))) (length (atleast_1d (Scalar (Fl 1)))) 0
     = ([Fl 0], 0)"
    by (simp add: example_defs np_log10_one)
  have hM': "sigM_vec example_lib (c_cosmo (compute_sigma example_cosmo)) (Scalar (Fl 1))
       (map np_log10 (atleast_1d (Array [Fl 1, Fl (- 1)])))
       (length (atleast_1d (Array [Fl 1, Fl (- 1)]))) 0
     = ([Fl 0, NaN], 1)"
    by (simp add: example_defs np_log10_one lg)
  have hP: "parse_pk2d example_cosmo DEFAULT_POWER_SPECTRUM True = Inr 1"
    by (simp add: example_defs)
  have hR: "sigmaR_vec example_lib (c_cosmo example_cosmo) 1 (Scalar (Fl 1)) (atleast_1d (Array [Fl 2]))
        (length (atleast_1d (Array [Fl 2]))) 0 = ([Fl 2], 0)"
    by (simp add: example_defs)
  have hR': "sigmaR_vec example_lib (c_cosmo example_cosmo) 1 (Scalar (Fl 1))
        (atleast_1d (Scalar (Fl (- 1)))) (length (atleast_1d (Scalar (Fl (- 1))))) 0
      = ([Fl (- 1)], 1)"
    by (simp add: example_defs)
  note ok = nonzero_status_raises [where L = example_lib and cosmo = example_cosmo
      and M = "Scalar (Fl 1)" and a = "Scalar (Fl 1)" and outM = "[Fl 0]" and stM = 0
      and p = DEFAULT_POWER_SPECTRUM and psp = 1
      and R = "Array [Fl 2]" and outR = "[Fl 2]" and stR = 0 and outV = "[Fl 2]" and stV = 0
      and outK = "[Fl 1]" and stK = 0]
  note bad = nonzero_status_raises [where L = example_lib and cosmo = example_cosmo
      and M = "Array [Fl 1, Fl (- 1)]" and a = "Scalar (Fl 1)" and outM = "[Fl 0, NaN]" and stM = 1
      and p = DEFAULT_POWER_SPECTRUM and psp = 1
      and R = "Scalar (Fl (- 1))" and outR = "[Fl (- 1)]" and stR = 1
      and outV = "[Fl (- 1)]" and stV = 1]
  note badK = nonzero_status_raises [where L = example_lib and cosmo = example_cosmo
      and a = "Array [Fl (- 1)]" and p = DEFAULT_POWER_SPECTRUM and psp = 1
      and outK = "[Fl (- 1)]" and stK = 1]
  have c1: "result (sigmaM example_lib example_cosmo (Scalar (Fl 1)) (Scalar (Fl 1)))
      = Inr (Scalar (Fl 0))"
    using ok by (simp add: example_defs np_log10_one)
  have c2: "result (sigmaM example_lib example_cosmo (Array [Fl 1, Fl (- 1)]) (Scalar (Fl 1)))
       = Inl (CCLError 1 ''engine log'')"
    using bad by (simp add: example_defs np_log10_one lg)
  have c3: "result (sigmaR example_lib example_cosmo (Array [Fl 2]) (Scalar (Fl 1))
       DEFAULT_POWER_SPECTRUM) = Inr (Array [Fl 2])"
    using ok by (simp add: example_defs)
  have c4: "result (sigmaR example_lib example_cosmo (Scalar (Fl (- 1))) (Scalar (Fl 1))
         DEFAULT_POWER_SPECTRUM) = Inl (CCLError 1 ''engine log'')"
    using bad by (simp add: example_defs)
  have c5: "result (sigmaV example_lib example_cosmo (Array [Fl 2]) (Scalar (Fl 1))
       DEFAULT_POWER_SPECTRUM) = Inr (Array [Fl 2])"
    using ok by (simp add: example_defs)
  have c6: "result (sigmaV example_lib example_cosmo (Scalar (Fl (- 1))) (Scalar (Fl 1))
         DEFAULT_POWER_SPECTRUM) = Inl (CCLError 1 ''engine log'')"
    using bad by (simp add: example_defs)
  have c7: "result (kNL example_lib example_cosmo (Scalar (Fl 1)) DEFAULT_POWER_SPECTRUM)
       = Inr (Scalar (Fl 1))"
    using ok by (simp add: example_defs)
  have c8: "result (kNL example_lib example_cosmo (Array [Fl (- 1)]) DEFAULT_POWER_SPECTRUM)
       = Inl (CCLError 1 ''engine log'')"
    using badK by (simp add: example_defs)
  show ?thesis
    using hM hM' hP hR hR' c1 c2 c3 c4 c5 c6 c7 c8 by (simp only: simp_thms)
qed


subsection \<open>The matter power spectra\<close>

text \<open>
  Claim C5. \<^verbatim>\<open>linear_matter_power(cosmo, k, a)\<close> gives what
  \<^verbatim>\<open>linear_power(cosmo, k, a)\<close> gives with the default identifier, and
  \<^verbatim>\<open>nonlin_matter_power(cosmo, k, a)\<close> what \<^verbatim>\<open>nonlin_power(cosmo, k, a)\<close> gives
  with the default identifier: the same result, the same context, the same calls.
\<close>

theorem matter_power_wrappers_delegate:
  "linear_matter_power L cosmo k a = linear_power L cosmo k a DEFAULT_POWER_SPECTRUM
   \<and> nonlin_matter_power L cosmo k a = nonlin_power L cosmo k a DEFAULT_POWER_SPECTRUM"
  by (simp add: linear_matter_power_def nonlin_matter_power_def Cosmology_linear_power_def
      Cosmology_nonlin_power_def)


subsection \<open>What sigmaM gives the engine\<close>

text \<open>
  Claim C6. \<^verbatim>\<open>sigmaM\<close> calls \<^verbatim>\<open>compute_sigma\<close> first and then evaluates the
  engine once: what it returns, the context it leaves and the calls it makes are given
  by the value of \<^verbatim>\<open>sigM_vec\<close> at the engine-side struct after \<^verbatim>\<open>compute_sigma\<close>
  and at the elementwise base-10 logarithm of the masses as a one-dimensional array, and
  by nothing else of the engine: two engines that agree there give the same outcome.
  That struct has its variance table computed. For finite positive masses the array the
  engine is given is neither the masses themselves nor the logarithm taken twice.
\<close>

theorem sigmaM_log10_once_after_compute_sigma:
  "sigmaM L cosmo M a =
     (case sigM_vec L (c_cosmo (compute_sigma cosmo)) a (map np_log10 (atleast_1d M))
             (length (atleast_1d M)) 0 of
        (out, st) \<Rightarrow>
          (if st = 0 then unwrap M out
           else Inl (CCLError st (status_message (c_cosmo cosmo))),
           compute_sigma cosmo,
           [Compute_sigma,
            SigM_vec (c_cosmo (compute_sigma cosmo)) a (map np_log10 (atleast_1d M))
              (length (atleast_1d M)) 0,
            Check st]))
   \<and> (sigM_vec L' (c_cosmo (compute_sigma cosmo)) a (map np_log10 (atleast_1d M))
          (length (atleast_1d M)) 0
        = sigM_vec L (c_cosmo (compute_sigma cosmo)) a (map np_log10 (atleast_1d M))
          (length (atleast_1d M)) 0
      \<longrightarrow> sigmaM L' cosmo M a = sigmaM L cosmo M a)
   \<and> computed_sigma (c_cosmo (compute_sigma cosmo))
   \<and> (atleast_1d M \<noteq> [] \<and> list_all positive_mass (atleast_1d M) \<longrightarrow>
        map np_log10 (atleast_1d M) \<noteq> atleast_1d M
        \<and> map np_log10 (atleast_1d M) \<noteq> map np_log10 (map np_log10 (atleast_1d M)))"
proof -
  have eq: "sigmaM L cosmo M a =
     (case sigM_vec L (c_cosmo (compute_sigma cosmo)) a (map np_log10 (atleast_1d M))
             (length (atleast_1d M)) 0 of
        (out, st) \<Rightarrow>
          (if st = 0 then unwrap M out
           else Inl (CCLError st (status_message (c_cosmo cosmo))),
           compute_sigma cosmo,
           [Compute_sigma,
            SigM_vec (c_cosmo (compute_sigma cosmo)) a (map np_log10 (atleast_1d M))
              (length (atleast_1d M)) 0,
            Check st]))"
    by (rule sigmaM_outcome)
  have dep: "sigM_vec L' (c_cosmo (compute_sigma cosmo)) a (map np_log10 (atleast_1d M))
          (length (atleast_1d M)) 0
        = sigM_vec L (c_cosmo (compute_sigma cosmo)) a (map np_log10 (atleast_1d M))
          (length (atleast_1d M)) 0
      \<longrightarrow> sigmaM L' cosmo M a = sigmaM L cosmo M a"
    by (simp add: sigmaM_outcome)
  have tab: "computed_sigma (c_cosmo (compute_sigma cosmo))"
    by (simp add: compute_sigma_def)
  have moved: "map np_log10 (atleast_1d M) \<noteq> atleast_1d M
        \<and> map np_log10 (atleast_1d M) \<noteq> map np_log10 (map np_log10 (atleast_1d M))"
    if h: "atleast_1d M \<noteq> [] \<and> list_all positive_mass (atleast_1d M)"
  proof -
    from h have ne: "atleast_1d M \<noteq> []" and pos: "list_all positive_mass (atleast_1d M)"
      by simp_all
    have "list_all (\<lambda>x. np_log10 x \<noteq> id x) (atleast_1d M)"
      using pos np_log10_moves(1) by (simp add: list_all_iff)
    from map_differs [OF ne this]
    have one: "map np_log10 (atleast_1d M) \<noteq> atleast_1d M" by simp
    have "\<And>x. positive_mass x \<Longrightarrow> np_log10 x \<noteq> np_log10 (np_log10 x)"
      using np_log10_moves(2) by fastforce
    then have "list_all (\<lambda>x. np_log10 x \<noteq> (np_log10 \<circ> np_log10) x) (atleast_1d M)"
      using pos by (simp add: list_all_iff)
    from map_differs [OF ne this]
    have two: "map np_log10 (atleast_1d M) \<noteq> map np_log10 (map np_log10 (atleast_1d M))"
      by simp
    from one two show ?thesis by simp
  qed
  from eq dep tab moved show ?thesis by blast
qed

text \<open>
  An instance on the stricter stand-in engine, which fails without the variance table
  and returns the array it is given: on a context without the table, the mass 10 gives
  status zero and the value 1, its logarithm.
\<close>

theorem sigmaM_log10_once_after_compute_sigma_witness:
  "atleast_1d (Scalar (Fl 10)) \<noteq> [] \<and> list_all positive_mass (atleast_1d (Scalar (Fl 10)))
   \<and> sigM_vec table_lib (c_cosmo example_cosmo) (Scalar (Fl 2)) [Fl 1] 1 0 = ([Fl 1], 2)
   \<and> sigM_vec table_lib (c_cosmo (compute_sigma example_cosmo)) (Scalar (Fl 2))
        (map np_log10 (atleast_1d (Scalar (Fl 10)))) (length (atleast_1d (Scalar (Fl 10)))) 0
       = ([Fl 1], 0)
   \<and> sigM_vec example_lib (c_cosmo (compute_sigma example_cosmo)) (Scalar (Fl 2))
        (map np_log10 (atleast_1d (Scalar (Fl 10)))) (length (atleast_1d (Scalar (Fl 10)))) 0
       = sigM_vec table_lib (c_cosmo (compute_sigma example_cosmo)) (Scalar (Fl 2))
        (map np_log10 (atleast_1d (Scalar (Fl 10)))) (length (atleast_1d (Scalar (Fl 10)))) 0
   \<and> sigmaM table_lib example_cosmo (Scalar (Fl 10)) (Scalar (Fl 2)) =
       (Inr (Scalar (Fl 1)), compute_sigma example_cosmo,
        [Compute_sigma,
         SigM_vec \<lparr>computed_sigma = True, status_message = ''engine log''\<rparr> (Scalar (Fl 2))
           [Fl 1] 1 0,
         Check 0])
   \<and> sigmaM example_lib example_cosmo (Scalar (Fl 10)) (Scalar (Fl 2))
       = sigmaM table_lib example_cosmo (Scalar (Fl 10)) (Scalar (Fl 2))
   \<and> map np_log10 (atleast_1d (Scalar (Fl 10))) \<noteq> atleast_1d (Scalar (Fl 10))
   \<and> map np_log10 (atleast_1d (Scalar (Fl 10)))
       \<noteq> map np_log10 (map np_log10 (atleast_1d (Scalar (Fl 10))))"
proof -
  have lg: "np_log10 (Fl 10) = Fl 1"
    by (simp add: np_log10_def)
  have h: "atleast_1d (Scalar (Fl 10)) \<noteq> [] \<and> list_all positive_mass (atleast_1d (Scalar (Fl 10)))"
    by (simp add: atleast_1d_def positive_mass_def)
  have e0: "sigM_vec table_lib (c_cosmo example_cosmo) (Scalar (Fl 2)) [Fl 1] 1 0 = ([Fl 1], 2)"
    by (simp add: table_lib_def example_defs)
  have e1: "sigM_vec table_lib (c_cosmo (compute_sigma example_cosmo)) (Scalar (Fl 2))
        (map np_log10 (atleast_1d (Scalar (Fl 10)))) (length (atleast_1d (Scalar (Fl 10)))) 0
       = ([Fl 1], 0)"
    by (simp add: table_lib_def example_defs lg)
  have e2: "sigM_vec example_lib (c_cosmo (compute_sigma example_cosmo)) (Scalar (Fl 2))
        (map np_log10 (atleast_1d (Scalar (Fl 10)))) (length (atleast_1d (Scalar (Fl 10)))) 0
       = ([Fl 1], 0)"
    by (simp add: example_defs lg)
  note inst = sigmaM_log10_once_after_compute_sigma
      [of table_lib example_cosmo "Scalar (Fl 10)" "Scalar (Fl 2)" example_lib]
  have out: "sigmaM table_lib example_cosmo (Scalar (Fl 10)) (Scalar (Fl 2)) =
       (Inr (Scalar (Fl 1)), compute_sigma example_cosmo,
        [Compute_sigma,
         SigM_vec \<lparr>computed_sigma = True, status_message = ''engine log''\<rparr> (Scalar (Fl 2))
           [Fl 1] 1 0,
         Check 0])"
    using inst e1 by (simp add: example_defs lg)
  have same: "sigmaM example_lib example_cosmo (Scalar (Fl 10)) (Scalar (Fl 2))
       = sigmaM table_lib example_cosmo (Scalar (Fl 10)) (Scalar (Fl 2))"
    using inst e1 e2 by simp
  have moved: "map np_log10 (atleast_1d (Scalar (Fl 10))) \<noteq> atleast_1d (Scalar (Fl 10))
   \<and> map np_log10 (atleast_1d (Scalar (Fl 10)))
       \<noteq> map np_log10 (map np_log10 (atleast_1d (Scalar (Fl 10))))"
    using inst h by blast
  from h e0 e1 e2 out same moved show ?thesis by simp
qed


subsection \<open>Resolution of the power spectrum\<close>




subsection \<open>sigma8\<close>

text \<open>
  Claim C7. \<^verbatim>\<open>sigma8(cosmo, p_of_k_a)\<close> returns what \<^verbatim>\<open>sigmaR\<close> returns at the
  radius \<^verbatim>\<open>8/h\<close>, the scale factor 1 and the same identifier, \<^verbatim>\<open>h\<close> read from the
  context. The value does not depend on the stored sigma8, so it is the same whether the
  parameter is filled or not.
\<close>

theorem sigma8_same_as_sigmaR:
  "(py_truediv (Fl 8) (param_h cosmo) = Inr r \<longrightarrow>
      result (sigma8 L cosmo p) = result (sigmaR L cosmo (Scalar r) (Scalar (Fl 1)) p))
   \<and> (param_h cosmo = Fl hv \<and> hv \<noteq> 0 \<longrightarrow>
      result (sigma8 L cosmo p)
        = result (sigmaR L cosmo (Scalar (Fl (8 / hv))) (Scalar (Fl 1)) p))
   \<and> result (sigma8 L (cosmo\<lparr>param_sigma8 := x\<rparr>) p) = result (sigma8 L cosmo p)"
proof -
  have gen: "result (sigma8 L c p) = result (sigmaR L c (Scalar r') (Scalar (Fl 1)) p)"
    if "py_truediv (Fl 8) (param_h c) = Inr r'" for c r'
    using sigmaR_Scalar_result [of L c r' "Scalar (Fl 1)" p]
    by (auto simp add: sigma8_outcome [OF that] split: sum.splits nd.splits)
  have fin: "py_truediv (Fl 8) (Fl hv) = Inr (Fl (8 / hv))" if "hv \<noteq> 0"
    using that by (simp add: py_truediv_def)
  have indep: "result (sigma8 L (cosmo\<lparr>param_sigma8 := x\<rparr>) p) = result (sigma8 L cosmo p)"
  proof (cases "py_truediv (Fl 8) (param_h cosmo)")
    case (Inl e)
    then show ?thesis by (simp add: sigma8_division_error)
  next
    case (Inr r')
    then have "py_truediv (Fl 8) (param_h (cosmo\<lparr>param_sigma8 := x\<rparr>)) = Inr r'" by simp
    from gen [OF this] gen [OF Inr] show ?thesis
      by (simp add: sigmaR_ignores_sigma8)
  qed
  show ?thesis
    using gen [of cosmo r] gen [of cosmo "Fl (8 / hv)"] fin indep by auto
qed

text \<open>An instance with \<^verbatim>\<open>h = 1/2\<close>, where the radius is 16.\<close>

theorem sigma8_same_as_sigmaR_witness:
  "py_truediv (Fl 8) (param_h example_cosmo) = Inr (Fl 16)
   \<and> param_h example_cosmo = Fl (1 / 2) \<and> (1 / 2 :: real) \<noteq> 0
   \<and> result (sigma8 example_lib example_cosmo DEFAULT_POWER_SPECTRUM)
       = result (sigmaR example_lib example_cosmo (Scalar (Fl 16)) (Scalar (Fl 1))
           DEFAULT_POWER_SPECTRUM)
   \<and> result (sigma8 example_lib (example_cosmo\<lparr>param_sigma8 := Fl (4 / 5)\<rparr>)
         DEFAULT_POWER_SPECTRUM)
       = result (sigma8 example_lib example_cosmo DEFAULT_POWER_SPECTRUM)"
proof -
  have d: "py_truediv (Fl 8) (param_h example_cosmo) = Inr (Fl 16)"
    by (simp add: example_cosmo_def py_truediv_def)
  have h: "param_h example_cosmo = Fl (1 / 2)"
    by (simp add: example_cosmo_def)
  show ?thesis
    using sigma8_same_as_sigmaR [of example_cosmo "Fl 16" example_lib DEFAULT_POWER_SPECTRUM
        "1 / 2" "Fl (4 / 5)"] d h
    by simp
qed

text \<open>
  Claim C3. When \<^verbatim>\<open>sigma8\<close> is called on a context whose stored sigma8 is not a
  number and returns a value, the stored sigma8 of the context it leaves is that value.
  Calling \<^verbatim>\<open>sigma8\<close> again on the context a call has left does not raise, returns the
  same value and leaves the context as it is.
\<close>

theorem sigma8_fills_undefined_parameter:
  "(np_isnan (param_sigma8 cosmo) \<and> sigma8 L cosmo p = (Inr v, cosmo', made)
      \<longrightarrow> v = Scalar (param_sigma8 cosmo'))
   \<and> (sigma8 L cosmo p = (Inr v, cosmo', made)
      \<longrightarrow> result (sigma8 L cosmo' p) = Inr v \<and> context_after (sigma8 L cosmo' p) = cosmo')"
proof -
  have first: "v = Scalar (param_sigma8 cosmo')"
    if a: "np_isnan (param_sigma8 cosmo) \<and> sigma8 L cosmo p = (Inr v, cosmo', made)"
  proof (cases "py_truediv (Fl 8) (param_h cosmo)")
    case (Inl e)
    with a show ?thesis by (simp add: sigma8_division_error)
  next
    case (Inr r)
    from a sigmaR_Scalar_result [of L cosmo r "Scalar (Fl 1)" p] show ?thesis
      by (auto simp add: sigma8_outcome [OF Inr] split: sum.splits nd.splits)
  qed
  have again: "result (sigma8 L cosmo' p) = Inr v \<and> context_after (sigma8 L cosmo' p) = cosmo'"
    if a: "sigma8 L cosmo p = (Inr v, cosmo', made)"
  proof (cases "py_truediv (Fl 8) (param_h cosmo)")
    case (Inl e)
    with a show ?thesis by (simp add: sigma8_division_error)
  next
    case (Inr r)
    obtain s where s: "result (sigmaR L cosmo (Scalar r) (Scalar (Fl 1)) p) = Inr (Scalar s)"
      and v: "v = Scalar s"
      and c: "cosmo' = cosmo \<and> \<not> np_isnan (param_sigma8 cosmo) \<or> cosmo' = cosmo\<lparr>param_sigma8 := s\<rparr>"
      using a sigmaR_Scalar_result [of L cosmo r "Scalar (Fl 1)" p]
      by (auto simp add: sigma8_outcome [OF Inr] split: sum.splits nd.splits if_splits)
    from c have d: "py_truediv (Fl 8) (param_h cosmo') = Inr r"
      using Inr by auto
    from c have s': "result (sigmaR L cosmo' (Scalar r) (Scalar (Fl 1)) p) = Inr (Scalar s)"
      using s by (auto simp add: sigmaR_ignores_sigma8)
    from c have k: "np_isnan (param_sigma8 cosmo') \<longrightarrow> cosmo'\<lparr>param_sigma8 := s\<rparr> = cosmo'"
      by auto
    show ?thesis
      using k by (simp add: sigma8_outcome [OF d] s' v)
  qed
  from first again show ?thesis by blast
qed

text \<open>
  An instance: with \<^verbatim>\<open>h = 1/2\<close> the radius is 16, the stand-in engine returns it, and
  the parameter is filled with 16; the second call returns 16 again.
\<close>

theorem sigma8_fills_undefined_parameter_witness:
  "np_isnan (param_sigma8 example_cosmo)
   \<and> sigma8 example_lib example_cosmo DEFAULT_POWER_SPECTRUM
       = (Inr (Scalar (Fl 16)), example_cosmo\<lparr>param_sigma8 := Fl 16\<rparr>,
          [Parse_pk2d DEFAULT_POWER_SPECTRUM True,
           SigmaR_vec (c_cosmo example_cosmo) 1 (Scalar (Fl 1)) [Fl 16] 1 0,
           Check 0, Fill_params_sigma8 (Fl 16)])
   \<and> Scalar (Fl 16) = Scalar (param_sigma8 (example_cosmo\<lparr>param_sigma8 := Fl 16\<rparr>))
   \<and> result (sigma8 example_lib (example_cosmo\<lparr>param_sigma8 := Fl 16\<rparr>) DEFAULT_POWER_SPECTRUM)
       = Inr (Scalar (Fl 16))
   \<and> context_after (sigma8 example_lib (example_cosmo\<lparr>param_sigma8 := Fl 16\<rparr>)
         DEFAULT_POWER_SPECTRUM) = example_cosmo\<lparr>param_sigma8 := Fl 16\<rparr>"
proof -
  have n: "np_isnan (param_sigma8 example_cosmo)"
    by (simp add: example_cosmo_def np_isnan_def)
  have e: "sigma8 example_lib example_cosmo DEFAULT_POWER_SPECTRUM
       = (Inr (Scalar (Fl 16)), example_cosmo\<lparr>param_sigma8 := Fl 16\<rparr>,
          [Parse_pk2d DEFAULT_POWER_SPECTRUM True,
           SigmaR_vec (c_cosmo example_cosmo) 1 (Scalar (Fl 1)) [Fl 16] 1 0,
           Check 0, Fill_params_sigma8 (Fl 16)])"
    by (simp add: sigma8_def Cosmology_sigmaR_def sigmaR_def Let_def example_defs)
  show ?thesis
    using sigma8_fills_undefined_parameter [of example_cosmo example_lib DEFAULT_POWER_SPECTRUM
        "Scalar (Fl 16)" "example_cosmo\<lparr>param_sigma8 := Fl 16\<rparr>"
        "[Parse_pk2d DEFAULT_POWER_SPECTRUM True,
           SigmaR_vec (c_cosmo example_cosmo) 1 (Scalar (Fl 1)) [Fl 16] 1 0,
           Check 0, Fill_params_sigma8 (Fl 16)]"] n e
    by simp
qed

text \<open>
  Claim C4 says that a call of \<^verbatim>\<open>sigma8\<close> on a context whose sigma8 is defined still
  writes the computed value into the context. The source guards the write with
  \<^verbatim>\<open>if np.isnan(cosmo["sigma8"])\<close>: on the context with sigma8 = 4/5 the call computes
  16, leaves 4/5 in the context and makes no write.
\<close>

theorem sigma8_write_back_counterexample:
  "\<not> np_isnan (param_sigma8 example_cosmo_s8)
   \<and> result (sigma8 example_lib example_cosmo_s8 DEFAULT_POWER_SPECTRUM) = Inr (Scalar (Fl 16))
   \<and> param_sigma8 (context_after (sigma8 example_lib example_cosmo_s8 DEFAULT_POWER_SPECTRUM))
       = Fl (4 / 5)
   \<and> param_sigma8 (context_after (sigma8 example_lib example_cosmo_s8 DEFAULT_POWER_SPECTRUM))
       \<noteq> Fl 16
   \<and> fills (calls (sigma8 example_lib example_cosmo_s8 DEFAULT_POWER_SPECTRUM)) = []"
  by (simp add: sigma8_def Cosmology_sigmaR_def sigmaR_def Let_def example_defs)

text \<open>
  Claim C4, amended. On a context whose stored sigma8 is defined, \<^verbatim>\<open>sigma8\<close> makes no
  write: it leaves the context as it found it. The value is still computed on every
  call, by the same calls as \<^verbatim>\<open>sigmaR\<close> at the radius \<^verbatim>\<open>8/h\<close>.
\<close>

theorem sigma8_defined_parameter_not_rewritten:
  "\<not> np_isnan (param_sigma8 cosmo) \<longrightarrow>
     context_after (sigma8 L cosmo p) = cosmo
     \<and> fills (calls (sigma8 L cosmo p)) = []
     \<and> (\<forall>r. py_truediv (Fl 8) (param_h cosmo) = Inr r \<longrightarrow>
          result (sigma8 L cosmo p) = result (sigmaR L cosmo (Scalar r) (Scalar (Fl 1)) p)
          \<and> calls (sigma8 L cosmo p) = calls (sigmaR L cosmo (Scalar r) (Scalar (Fl 1)) p))"
proof (intro impI)
  assume d: "\<not> np_isnan (param_sigma8 cosmo)"
  show "context_after (sigma8 L cosmo p) = cosmo
     \<and> fills (calls (sigma8 L cosmo p)) = []
     \<and> (\<forall>r. py_truediv (Fl 8) (param_h cosmo) = Inr r \<longrightarrow>
          result (sigma8 L cosmo p) = result (sigmaR L cosmo (Scalar r) (Scalar (Fl 1)) p)
          \<and> calls (sigma8 L cosmo p) = calls (sigmaR L cosmo (Scalar r) (Scalar (Fl 1)) p))"
  proof (cases "py_truediv (Fl 8) (param_h cosmo)")
    case (Inl e)
    then show ?thesis by (simp add: sigma8_division_error)
  next
    case (Inr r)
    show ?thesis
      using d sigmaR_fills [of L cosmo "Scalar r" "Scalar (Fl 1)" p]
      by (simp add: Inr sigma8_outcome [OF Inr] split: sum.splits nd.splits)
  qed
qed

text \<open>An instance of the amended claim on the context with sigma8 = 4/5.\<close>

theorem sigma8_defined_parameter_not_rewritten_witness:
  "\<not> np_isnan (param_sigma8 example_cosmo_s8)
   \<and> py_truediv (Fl 8) (param_h example_cosmo_s8) = Inr (Fl 16)
   \<and> context_after (sigma8 example_lib example_cosmo_s8 DEFAULT_POWER_SPECTRUM) = example_cosmo_s8
   \<and> fills (calls (sigma8 example_lib example_cosmo_s8 DEFAULT_POWER_SPECTRUM)) = []
   \<and> calls (sigma8 example_lib example_cosmo_s8 DEFAULT_POWER_SPECTRUM)
       = calls (sigmaR example_lib example_cosmo_s8 (Scalar (Fl 16)) (Scalar (Fl 1))
           DEFAULT_POWER_SPECTRUM)"
proof -
  have n: "\<not> np_isnan (param_sigma8 example_cosmo_s8)"
    by (simp add: example_cosmo_s8_def example_cosmo_def np_isnan_def)
  have d: "py_truediv (Fl 8) (param_h example_cosmo_s8) = Inr (Fl 16)"
    by (simp add: example_cosmo_s8_def example_cosmo_def py_truediv_def)
  show ?thesis
    using sigma8_defined_parameter_not_rewritten
      [of example_cosmo_s8 example_lib DEFAULT_POWER_SPECTRUM] n d
    by blast
qed


subsection \<open>Effects on the context\<close>

text \<open>
  Claim C9 says that every operation but \<^verbatim>\<open>sigma8\<close> leaves the state of the context
  unchanged. \<^verbatim>\<open>sigmaM\<close> calls \<^verbatim>\<open>cosmo.compute_sigma()\<close>, which builds the variance
  table of the context: on a context without the table, the context is another one after
  the call.
\<close>

theorem sigmaM_changes_context_counterexample:
  "computed_sigma (c_cosmo example_cosmo) = False
   \<and> computed_sigma (c_cosmo (context_after
         (sigmaM example_lib example_cosmo (Scalar (Fl 1)) (Scalar (Fl 1))))) = True
   \<and> context_after (sigmaM example_lib example_cosmo (Scalar (Fl 1)) (Scalar (Fl 1)))
       \<noteq> example_cosmo"
proof -
  have a: "computed_sigma (c_cosmo example_cosmo) = False"
    by (simp add: example_cosmo_def)
  have b: "computed_sigma (c_cosmo (context_after
         (sigmaM example_lib example_cosmo (Scalar (Fl 1)) (Scalar (Fl 1))))) = True"
    by (simp add: sigmaM_context_after compute_sigma_def)
  from a b show ?thesis by auto
qed

text \<open>
  Claim C9, amended. The module writes a parameter of the context in one place only,
  the fill of sigma8 in \<^verbatim>\<open>sigma8\<close>: that call makes one write, of the value it
  returns, exactly when the stored sigma8 is not a number and the call returns a value,
  and otherwise makes no write and leaves the context as it found it; the other eight
  operations write no parameter. \<^verbatim>\<open>sigmaM\<close> does not only read: it leaves the context
  as \<^verbatim>\<open>compute_sigma\<close> leaves it, with the variance table computed and the parameters
  \<^verbatim>\<open>h\<close> and \<^verbatim>\<open>sigma8\<close> as they were, and that is the context it found exactly when
  the table was computed already. \<^verbatim>\<open>linear_power\<close>, \<^verbatim>\<open>nonlin_power\<close>, the two
  matter wrappers, \<^verbatim>\<open>sigmaR\<close>, \<^verbatim>\<open>sigmaV\<close> and \<^verbatim>\<open>kNL\<close> contain no write of
  their own; with the lookups \<^verbatim>\<open>get_linear_power\<close>, \<^verbatim>\<open>get_nonlin_power\<close> and
  \<^verbatim>\<open>parse_pk2d\<close> as the spec has them, lookups that do not change the context, they
  leave the context as they found it.
\<close>

theorem only_sigma8_writes_a_parameter:
  "context_after (linear_power L cosmo k a p) = cosmo
   \<and> context_after (nonlin_power L cosmo k a p) = cosmo
   \<and> context_after (linear_matter_power L cosmo k a) = cosmo
   \<and> context_after (nonlin_matter_power L cosmo k a) = cosmo
   \<and> context_after (sigmaR L cosmo R a p) = cosmo
   \<and> context_after (sigmaV L cosmo R a p) = cosmo
   \<and> context_after (kNL L cosmo a p) = cosmo
   \<and> context_after (sigmaM L cosmo M a) = compute_sigma cosmo
   \<and> computed_sigma (c_cosmo (context_after (sigmaM L cosmo M a)))
   \<and> param_h (context_after (sigmaM L cosmo M a)) = param_h cosmo
   \<and> param_sigma8 (context_after (sigmaM L cosmo M a)) = param_sigma8 cosmo
   \<and> (context_after (sigmaM L cosmo M a) = cosmo \<longleftrightarrow> computed_sigma (c_cosmo cosmo))
   \<and> fills (calls (linear_power L cosmo k a p)) = []
   \<and> fills (calls (nonlin_power L cosmo k a p)) = []
   \<and> fills (calls (linear_matter_power L cosmo k a)) = []
   \<and> fills (calls (nonlin_matter_power L cosmo k a)) = []
   \<and> fills (calls (sigmaM L cosmo M a)) = []
   \<and> fills (calls (sigmaR L cosmo R a p)) = []
   \<and> fills (calls (sigmaV L cosmo R a p)) = []
   \<and> fills (calls (kNL L cosmo a p)) = []
   \<and> fills (calls (sigma8 L cosmo p)) =
       (if np_isnan (param_sigma8 cosmo)
        then (case result (sigma8 L cosmo p) of Inr (Scalar s) \<Rightarrow> [s] | _ \<Rightarrow> [])
        else [])
   \<and> context_after (sigma8 L cosmo p) =
       (if np_isnan (param_sigma8 cosmo)
        then (case result (sigma8 L cosmo p) of
                Inr (Scalar s) \<Rightarrow> cosmo\<lparr>param_sigma8 := s\<rparr> | _ \<Rightarrow> cosmo)
        else cosmo)
   \<and> length (fills (calls (sigma8 L cosmo p))) \<le> 1"
proof -
  have w: "context_after (linear_matter_power L cosmo k a) = cosmo"
    "context_after (nonlin_matter_power L cosmo k a) = cosmo"
    "fills (calls (linear_matter_power L cosmo k a)) = []"
    "fills (calls (nonlin_matter_power L cosmo k a)) = []"
    by (simp_all add: linear_matter_power_def nonlin_matter_power_def Cosmology_linear_power_def
        Cosmology_nonlin_power_def linear_power_frame nonlin_power_frame)
  have m: "computed_sigma (c_cosmo (context_after (sigmaM L cosmo M a)))"
    "param_h (context_after (sigmaM L cosmo M a)) = param_h cosmo"
    "param_sigma8 (context_after (sigmaM L cosmo M a)) = param_sigma8 cosmo"
    "context_after (sigmaM L cosmo M a) = cosmo \<longleftrightarrow> computed_sigma (c_cosmo cosmo)"
    by (simp_all add: sigmaM_context_after compute_sigma_params compute_sigma_fixed_iff)
      (simp add: compute_sigma_def)
  note s = sigma8_effect [of L cosmo p] sigma8_fills_at_most_one [of L cosmo p]
  show ?thesis
    by (intro conjI w m s linear_power_frame nonlin_power_frame sigmaR_context_after
        sigmaV_context_after kNL_context_after sigmaM_context_after sigmaM_fills sigmaR_fills
        sigmaV_fills kNL_fills)
qed

text \<open>
  Instances: on a context without the variance table \<^verbatim>\<open>sigmaM\<close> leaves another
  context, with the table, and on one with the table the same context; \<^verbatim>\<open>sigma8\<close>
  makes the one write of 16 when the stored sigma8 is not a number and none when it is
  4/5.
\<close>

theorem only_sigma8_writes_a_parameter_witness:
  "\<not> computed_sigma (c_cosmo example_cosmo)
   \<and> computed_sigma (c_cosmo (context_after
        (sigmaM example_lib example_cosmo (Scalar (Fl 1)) (Scalar (Fl 1)))))
   \<and> context_after (sigmaM example_lib example_cosmo (Scalar (Fl 1)) (Scalar (Fl 1)))
       \<noteq> example_cosmo
   \<and> computed_sigma (c_cosmo (compute_sigma example_cosmo))
   \<and> context_after (sigmaM example_lib (compute_sigma example_cosmo) (Scalar (Fl 1)) (Scalar (Fl 1)))
       = compute_sigma example_cosmo
   \<and> np_isnan (param_sigma8 example_cosmo)
   \<and> result (sigma8 example_lib example_cosmo DEFAULT_POWER_SPECTRUM) = Inr (Scalar (Fl 16))
   \<and> context_after (sigma8 example_lib example_cosmo DEFAULT_POWER_SPECTRUM)
       = example_cosmo\<lparr>param_sigma8 := Fl 16\<rparr>
   \<and> fills (calls (sigma8 example_lib example_cosmo DEFAULT_POWER_SPECTRUM)) = [Fl 16]
   \<and> \<not> np_isnan (param_sigma8 example_cosmo_s8)
   \<and> context_after (sigma8 example_lib example_cosmo_s8 DEFAULT_POWER_SPECTRUM) = example_cosmo_s8
   \<and> fills (calls (sigma8 example_lib example_cosmo_s8 DEFAULT_POWER_SPECTRUM)) = []
   \<and> context_after (sigmaR example_lib example_cosmo (Scalar (Fl 1)) (Scalar (Fl 1))
         DEFAULT_POWER_SPECTRUM) = example_cosmo"
proof -
  have t0: "\<not> computed_sigma (c_cosmo example_cosmo)"
    by (simp add: example_cosmo_def)
  have t1: "computed_sigma (c_cosmo (compute_sigma example_cosmo))"
    by (simp add: compute_sigma_def)
  have n0: "np_isnan (param_sigma8 example_cosmo)"
    by (simp add: example_cosmo_def np_isnan_def)
  have n1: "\<not> np_isnan (param_sigma8 example_cosmo_s8)"
    by (simp add: example_cosmo_s8_def example_cosmo_def np_isnan_def)
  have r: "result (sigma8 example_lib example_cosmo DEFAULT_POWER_SPECTRUM) = Inr (Scalar (Fl 16))"
    by (simp add: sigma8_def Cosmology_sigmaR_def sigmaR_def Let_def example_defs)
  note i0 = only_sigma8_writes_a_parameter [of example_lib example_cosmo "Scalar (Fl 1)"
      "Scalar (Fl 1)" DEFAULT_POWER_SPECTRUM "Scalar (Fl 1)" "Scalar (Fl 1)"]
  note i1 = only_sigma8_writes_a_parameter [of example_lib "compute_sigma example_cosmo"
      "Scalar (Fl 1)" "Scalar (Fl 1)" DEFAULT_POWER_SPECTRUM "Scalar (Fl 1)" "Scalar (Fl 1)"]
  note i2 = only_sigma8_writes_a_parameter [of example_lib example_cosmo_s8 "Scalar (Fl 1)"
      "Scalar (Fl 1)" DEFAULT_POWER_SPECTRUM "Scalar (Fl 1)" "Scalar (Fl 1)"]
  have a: "computed_sigma (c_cosmo (context_after
        (sigmaM example_lib example_cosmo (Scalar (Fl 1)) (Scalar (Fl 1)))))"
    "context_after (sigmaM example_lib example_cosmo (Scalar (Fl 1)) (Scalar (Fl 1)))
       \<noteq> example_cosmo"
    "context_after (sigmaR example_lib example_cosmo (Scalar (Fl 1)) (Scalar (Fl 1))
         DEFAULT_POWER_SPECTRUM) = example_cosmo"
    using i0 t0 by blast+
  have b: "context_after (sigmaM example_lib (compute_sigma example_cosmo) (Scalar (Fl 1))
        (Scalar (Fl 1))) = compute_sigma example_cosmo"
    using i1 t1 by blast
  have c: "context_after (sigma8 example_lib example_cosmo DEFAULT_POWER_SPECTRUM)
       = example_cosmo\<lparr>param_sigma8 := Fl 16\<rparr>"
    "fills (calls (sigma8 example_lib example_cosmo DEFAULT_POWER_SPECTRUM)) = [Fl 16]"
    using i0 n0 r by simp_all
  have d: "context_after (sigma8 example_lib example_cosmo_s8 DEFAULT_POWER_SPECTRUM)
      = example_cosmo_s8"
    "fills (calls (sigma8 example_lib example_cosmo_s8 DEFAULT_POWER_SPECTRUM)) = []"
    using i2 n1 by simp_all
  from t0 t1 n0 n1 r a b c d show ?thesis by simp
qed

end
